theory Spec2Isabelle
  imports Complex_Main "HOL-Library.Char_ord" "HOL-Library.List_Lexorder"
begin

section \<open>Python values, exceptions and primitive operations\<close>

text \<open>
  The pipeline passes JSON-like documents around as Python dictionaries whose values
  are dynamically typed.  A value is embedded as a \<open>pyval\<close>.  A dictionary is an
  association list in insertion order, read with the first binding of a key.  Python's
  \<open>int\<close> and \<open>float\<close> are both embedded as exact rationals: the rounding of
  binary floating point is not part of the model.
\<close>

datatype pyval =
    PNone
  | PBool bool
  | PNum rat
  | PStr string
  | PList "pyval list"
  | PDict "(string \<times> pyval) list"

datatype pyerr =
    TypeError
  | AttributeError
  | KeyError
  | ValueError
  | ZeroDivisionError
  | RuntimeError
  | OutsideModel

text \<open>
  \<open>OutsideModel\<close> is not a Python exception: it marks a run that leaves the
  fragment of Python modelled here (a complex number, an infinite or undefined
  floating-point value).  No handler of the program catches it.
\<close>

text \<open>Truthiness, as \<open>bool(v)\<close> computes it.\<close>

fun truthy :: "pyval \<Rightarrow> bool" where
  "truthy PNone = False"
| "truthy (PBool b) = b"
| "truthy (PNum r) = (r \<noteq> 0)"
| "truthy (PStr s) = (s \<noteq> [])"
| "truthy (PList xs) = (xs \<noteq> [])"
| "truthy (PDict kvs) = (kvs \<noteq> [])"

fun is_dict :: "pyval \<Rightarrow> bool" where
  "is_dict (PDict kvs) = True"
| "is_dict v = False"

text \<open>\<open>d.get(k, default)\<close> on a value known to be a dictionary's item list.\<close>

definition get_or :: "(string \<times> pyval) list \<Rightarrow> string \<Rightarrow> pyval \<Rightarrow> pyval" where
  "get_or kvs k d = (case map_of kvs k of None \<Rightarrow> d | Some v \<Rightarrow> v)"

text \<open>\<open>v.get(k, default)\<close> on any value: only a dictionary has the method.\<close>

fun py_get :: "pyval \<Rightarrow> string \<Rightarrow> pyval \<Rightarrow> pyerr + pyval" where
  "py_get (PDict kvs) k d = Inr (get_or kvs k d)"
| "py_get v k d = Inl AttributeError"

text \<open>Substring test, \<open>s in t\<close> for two strings.\<close>

fun is_substr :: "string \<Rightarrow> string \<Rightarrow> bool" where
  "is_substr s [] = (s = [])"
| "is_substr s (c # cs) = (take (length s) (c # cs) = s \<or> is_substr s cs)"

text \<open>
  \<open>s in v\<close> for a string \<open>s\<close>: key membership in a dictionary, substring in a
  string, element membership in a list (a string equals only a string), and a
  \<open>TypeError\<close> on a value that is not a container.
\<close>

fun str_in :: "string \<Rightarrow> pyval \<Rightarrow> pyerr + bool" where
  "str_in s (PDict kvs) = Inr (s \<in> set (map fst kvs))"
| "str_in s (PStr t) = Inr (is_substr s t)"
| "str_in s (PList xs) = Inr (PStr s \<in> set xs)"
| "str_in s v = Inl TypeError"

text \<open>
  \<open>round(x)\<close> with one argument: the nearest integer, a tie going to the even one.
\<close>

definition py_round :: "'a::floor_ceiling \<Rightarrow> int" where
  "py_round x =
     (let f = \<lfloor>x\<rfloor>; d = x - of_int f
      in if d < 1 / 2 then f
         else if 1 / 2 < d then f + 1
         else if even f then f else f + 1)"

section \<open>Orchestrator: the confidence score\<close>

text \<open>
  \<open>sum(1 for section in analysis_results.values() if "error" in section)\<close>:
  the first section on which the membership test raises ends the count.
\<close>

fun count_error_sections :: "pyval list \<Rightarrow> pyerr + nat" where
  "count_error_sections [] = Inr 0"
| "count_error_sections (v # vs) =
     (case str_in ''error'' v of
        Inl e \<Rightarrow> Inl e
      | Inr b \<Rightarrow>
          (case count_error_sections vs of
             Inl e \<Rightarrow> Inl e
           | Inr n \<Rightarrow> Inr (if b then n + 1 else n)))"

definition calculate_confidence_score :: "(string \<times> pyval) list \<Rightarrow> pyerr + int" where
  "calculate_confidence_score analysis_results =
     (if analysis_results = [] then Inr 6
      else
        let total_sections = int (length analysis_results)
        in case count_error_sections (map snd analysis_results) of
             Inl e \<Rightarrow> Inl e
           | Inr error_sections \<Rightarrow>
               if total_sections = 0 then Inr 5
               else
                 let confidence_pct =
                       (of_int (total_sections - int error_sections) :: rat)
                         / of_int total_sections
                 in Inr (py_round (5 + confidence_pct * 5)))"

text \<open>
  The specification's reading of the score: a category is shaped as an error when it is a
  dictionary with the key \<open>error\<close>, and \<open>ok_fraction\<close> is the share of the others.
\<close>

fun error_shaped :: "pyval \<Rightarrow> bool" where
  "error_shaped (PDict kvs) = (''error'' \<in> set (map fst kvs))"
| "error_shaped v = False"

definition ok_fraction :: "(string \<times> pyval) list \<Rightarrow> rat" where
  "ok_fraction ar =
     of_nat (length (filter (\<lambda>v. \<not> error_shaped v) (map snd ar))) / of_nat (length ar)"

section \<open>More primitive operations\<close>

text \<open>Sequencing of computations that may raise: the first exception ends them.\<close>

definition ebind :: "pyerr + 'a \<Rightarrow> ('a \<Rightarrow> pyerr + 'b) \<Rightarrow> pyerr + 'b" where
  "ebind m f = (case m of Inl e \<Rightarrow> Inl e | Inr x \<Rightarrow> f x)"

text \<open>A number as arithmetic sees it: \<open>True\<close> and \<open>False\<close> count as 1 and 0.\<close>

fun as_num :: "pyval \<Rightarrow> rat option" where
  "as_num (PNum r) = Some r"
| "as_num (PBool b) = Some (if b then 1 else 0)"
| "as_num v = None"

definition num_or_type_error :: "pyval \<Rightarrow> pyerr + rat" where
  "num_or_type_error v = (case as_num v of None \<Rightarrow> Inl TypeError | Some r \<Rightarrow> Inr r)"

text \<open>\<open>d[k] = v\<close>: an existing key keeps its place, a new one goes last.\<close>

fun dict_set :: "(string \<times> 'a) list \<Rightarrow> string \<Rightarrow> 'a \<Rightarrow> (string \<times> 'a) list" where
  "dict_set [] k v = [(k, v)]"
| "dict_set ((k', v') # kvs) k v =
     (if k' = k then (k, v) # kvs else (k', v') # dict_set kvs k v)"

text \<open>\<open>d.update(other)\<close>.\<close>

fun dict_update :: "(string \<times> 'a) list \<Rightarrow> (string \<times> 'a) list \<Rightarrow> (string \<times> 'a) list" where
  "dict_update d [] = d"
| "dict_update d ((k, v) # other) = dict_update (dict_set d k v) other"

text \<open>
  \<open>x in d\<close> for a dictionary with string keys and any value \<open>x\<close>: a list or a
  dictionary cannot be hashed, and nothing but a string equals a string key.
\<close>

fun key_in :: "pyval \<Rightarrow> (string \<times> 'a) list \<Rightarrow> pyerr + bool" where
  "key_in (PStr k) d = Inr (k \<in> set (map fst d))"
| "key_in (PList xs) d = Inl TypeError"
| "key_in (PDict kvs) d = Inl TypeError"
| "key_in v d = Inr False"

text \<open>\<open>round(x, 1)\<close>: one decimal, a tie going to the even last digit.\<close>

definition py_round1 :: "rat \<Rightarrow> rat" where
  "py_round1 x = of_int (py_round (x * 10)) / 10"

section \<open>Currency converter\<close>

definition builtin_rates :: "(string \<times> rat) list" where
  "builtin_rates =
     [(''USD'', 1), (''EUR'', 85 / 100), (''GBP'', 73 / 100), (''JPY'', 110),
      (''CNY'', 645 / 100), (''INR'', 75), (''AUD'', 135 / 100), (''CAD'', 125 / 100),
      (''SGD'', 135 / 100), (''CHF'', 92 / 100)]"

text \<open>
  \<open>_get_currency_rates\<close>.  The argument is what \<open>config.get("currency.rates", {})\<close>
  yields, the empty dictionary when there is no configuration or it has no rates;
  updating with the empty dictionary changes nothing, as the two guards of the source
  have it.
\<close>

definition get_currency_rates :: "(string \<times> rat) list \<Rightarrow> (string \<times> rat) list" where
  "get_currency_rates config_rates =
     (if config_rates \<noteq> [] then dict_update builtin_rates config_rates else builtin_rates)"

definition fallback_rates :: "(string \<times> rat) list" where
  "fallback_rates =
     [(''USD'', 1), (''EUR'', 85 / 100), (''GBP'', 73 / 100), (''JPY'', 110),
      (''CNY'', 645 / 100), (''INR'', 75), (''AUD'', 135 / 100), (''CAD'', 125 / 100),
      (''SGD'', 135 / 100), (''CHF'', 92 / 100), (''HKD'', 78 / 10), (''NZD'', 14 / 10),
      (''SEK'', 86 / 10), (''KRW'', 1150), (''NOK'', 85 / 10), (''MXN'', 20),
      (''BRL'', 53 / 10), (''RUB'', 75), (''ZAR'', 15), (''TRY'', 86 / 10)]"

text \<open>\<open>d[k]\<close> on a table of rates.\<close>

definition rate_at :: "(string \<times> rat) list \<Rightarrow> pyval \<Rightarrow> pyerr + rat" where
  "rate_at d k =
     (case k of
        PStr c \<Rightarrow> (case map_of d c of None \<Rightarrow> Inl KeyError | Some r \<Rightarrow> Inr r)
      | _ \<Rightarrow> Inl KeyError)"

text \<open>\<open>_get_default_rate\<close>: the fallback table, and 50 for a currency it lacks.\<close>

definition get_default_rate :: "pyval \<Rightarrow> pyerr + rat" where
  "get_default_rate currency =
     ebind (key_in currency fallback_rates) (\<lambda>known.
       if known then rate_at fallback_rates currency else Inr 50)"

text \<open>The rate of a currency other than USD: the merged table, else the fallback.\<close>

definition rate_of :: "(string \<times> rat) list \<Rightarrow> pyval \<Rightarrow> pyerr + rat" where
  "rate_of rates currency =
     ebind (key_in currency rates) (\<lambda>known.
       if \<not> known then get_default_rate currency else rate_at rates currency)"

text \<open>True division \<open>a / b\<close> of two numbers.\<close>

definition py_div :: "rat \<Rightarrow> rat \<Rightarrow> pyerr + rat" where
  "py_div a b = (if b = 0 then Inl ZeroDivisionError else Inr (a / b))"

text \<open>
  \<open>convert_currency(amount, from_currency, to_currency, config)\<close>.  The target is
  a string at every call of the repository; the source may be any value read from a
  document.
\<close>

definition convert_currency ::
    "pyval \<Rightarrow> pyval \<Rightarrow> string \<Rightarrow> (string \<times> rat) list \<Rightarrow> pyerr + pyval" where
  "convert_currency amount from_currency to_currency config_rates =
     (if amount = PNone then Inr PNone
      else if from_currency = PStr to_currency then Inr amount
      else
        let rates = get_currency_rates config_rates
        in ebind
             (if from_currency \<noteq> PStr ''USD''
              then ebind (rate_of rates from_currency) (\<lambda>from_rate.
                     ebind (num_or_type_error amount) (\<lambda>a. py_div a from_rate))
              else num_or_type_error amount)
             (\<lambda>amount_usd.
                if to_currency \<noteq> ''USD''
                then ebind (rate_of rates (PStr to_currency)) (\<lambda>to_rate.
                       Inr (PNum (amount_usd * to_rate)))
                else Inr (PNum amount_usd)))"

section \<open>Scoring engine\<close>

definition DEFAULT_WEIGHTS :: "(string \<times> rat) list" where
  "DEFAULT_WEIGHTS =
     [(''MarketAnalysis'', 20 / 100), (''CompetitiveLandscape'', 15 / 100),
      (''ProductMarketFit'', 20 / 100), (''Finance'', 25 / 100),
      (''WhyAnalysis'', 10 / 100), (''Scalability'', 10 / 100)]"

text \<open>
  The loop of \<open>_get_weights\<close> over \<open>config_weights.items()\<close>: an entry replaces
  the weight of a category that has one, and is ignored otherwise.
\<close>

fun apply_overrides :: "(string \<times> rat) list \<Rightarrow> (string \<times> rat) list \<Rightarrow> (string \<times> rat) list" where
  "apply_overrides weights [] = weights"
| "apply_overrides weights ((category, weight) # config_weights) =
     apply_overrides
       (if category \<in> set (map fst weights) then dict_set weights category weight
        else weights)
       config_weights"

definition get_weights :: "(string \<times> rat) list \<Rightarrow> (string \<times> rat) list" where
  "get_weights config_weights =
     (let weights = apply_overrides DEFAULT_WEIGHTS config_weights;
          total_weight = sum_list (map snd weights)
      in if 0 < total_weight
         then map (\<lambda>(category, w). (category, w / total_weight)) weights
         else weights)"

text \<open>\<open>a >= b\<close> of a document value against a number.\<close>

definition ge_num :: "pyval \<Rightarrow> rat \<Rightarrow> pyerr + bool" where
  "ge_num v b = ebind (num_or_type_error v) (\<lambda>a. Inr (b \<le> a))"

definition le_num :: "pyval \<Rightarrow> rat \<Rightarrow> pyerr + bool" where
  "le_num v b = ebind (num_or_type_error v) (\<lambda>a. Inr (a \<le> b))"

text \<open>
  \<open>_adjust_score_with_research\<close>.  Without research the score is returned as it
  is, whatever its type.
\<close>

definition adjust_score_with_research :: "string \<Rightarrow> pyval \<Rightarrow> pyval \<Rightarrow> pyerr + pyval" where
  "adjust_score_with_research category score research_results =
     (if \<not> truthy research_results then Inr score
      else
        ebind (py_get research_results ''summary'' (PDict [])) (\<lambda>summary.
        ebind (py_get summary ''credibility_score'' (PNum 0)) (\<lambda>credibility_score.
        ebind (ge_num credibility_score 80) (\<lambda>ge80.
        ebind (if ge80 then Inr True else ge_num credibility_score 50) (\<lambda>ge50.
          let adjustment = (if ge80 then 1 / 2 else if ge50 then 0 else - 1)
          in ebind (num_or_type_error score) (\<lambda>s.
               Inr (PNum (max 1 (min 10 (s + adjustment))))))))))"

record category_score =
  raw_score :: pyval
  adjusted_score :: pyval
  weight :: rat
  weighted_score :: rat

text \<open>
  The loop of \<open>score\<close> over \<open>weights.items()\<close>.  A category is scored when it
  is a key of \<open>analysis_results\<close>; its average defaults to 0.
\<close>

fun score_categories ::
    "(string \<times> rat) list \<Rightarrow> (string \<times> pyval) list \<Rightarrow> pyval
       \<Rightarrow> pyerr + (string \<times> category_score) list" where
  "score_categories [] analysis_results research_results = Inr []"
| "score_categories ((category, w) # weights) analysis_results research_results =
     (case map_of analysis_results category of
        None \<Rightarrow> score_categories weights analysis_results research_results
      | Some analysis \<Rightarrow>
          ebind (py_get analysis ''category_average'' (PNum 0)) (\<lambda>category_average.
          ebind (adjust_score_with_research category category_average research_results)
            (\<lambda>adjusted.
          ebind (num_or_type_error adjusted) (\<lambda>adj.
          ebind (score_categories weights analysis_results research_results) (\<lambda>rest.
            Inr ((category,
                  \<lparr>raw_score = category_average, adjusted_score = adjusted,
                   weight = w, weighted_score = adj * w\<rparr>) # rest))))))"

definition calculate_overall_score :: "(string \<times> category_score) list \<Rightarrow> rat" where
  "calculate_overall_score category_scores =
     (let weighted_sum = sum_list (map (\<lambda>(c, cs). weighted_score cs) category_scores);
          weights_sum = sum_list (map (\<lambda>(c, cs). weight cs) category_scores);
          overall_score = (if 0 < weights_sum then weighted_sum / weights_sum else 0)
      in py_round1 overall_score)"

text \<open>
  \<open>_apply_overall_adjustments\<close>: the average of a category that is present, then
  the penalty for risk and the bonuses for product fit and market.
\<close>

definition category_average_of :: "(string \<times> pyval) list \<Rightarrow> string \<Rightarrow> pyerr + pyval option" where
  "category_average_of analysis_results category =
     (case map_of analysis_results category of
        None \<Rightarrow> Inr None
      | Some analysis \<Rightarrow>
          ebind (py_get analysis ''category_average'' (PNum 0)) (\<lambda>v. Inr (Some v)))"

definition risk_adjustment :: "pyval option \<Rightarrow> rat \<Rightarrow> pyerr + rat" where
  "risk_adjustment risk adjusted =
     (case risk of
        None \<Rightarrow> Inr adjusted
      | Some risk_score \<Rightarrow>
          ebind (le_num risk_score 3) (\<lambda>le3.
            if le3 then Inr (adjusted - 1)
            else ebind (le_num risk_score 5) (\<lambda>le5.
                   Inr (if le5 then adjusted - 1 / 2 else adjusted))))"

definition bonus_adjustment :: "pyval option \<Rightarrow> rat \<Rightarrow> pyerr + rat" where
  "bonus_adjustment avg adjusted =
     (case avg of
        None \<Rightarrow> Inr adjusted
      | Some s \<Rightarrow>
          ebind (ge_num s 9) (\<lambda>ge9. Inr (if ge9 then adjusted + 1 / 2 else adjusted)))"

definition apply_overall_adjustments :: "rat \<Rightarrow> (string \<times> pyval) list \<Rightarrow> pyerr + rat" where
  "apply_overall_adjustments overall_raw analysis_results =
     ebind (category_average_of analysis_results ''RiskMitigation'') (\<lambda>risk.
     ebind (risk_adjustment risk overall_raw) (\<lambda>adjusted1.
     ebind (category_average_of analysis_results ''ProductMarketFit'') (\<lambda>pmf.
     ebind (bonus_adjustment pmf adjusted1) (\<lambda>adjusted2.
     ebind (category_average_of analysis_results ''MarketAnalysis'') (\<lambda>market.
     ebind (bonus_adjustment market adjusted2) (\<lambda>adjusted3.
       Inr (py_round1 (max 1 (min 10 adjusted3)))))))))"

text \<open>
  The numeric part of the result of \<open>score\<close>.  The explanations, the recommendation
  and the confidence label are texts derived from these numbers and from
  \<open>analysis_results\<close>; they are left out.
\<close>

record scoring_result =
  category_scores :: "(string \<times> category_score) list"
  overall_raw :: rat
  overall_adjusted :: rat

definition score ::
    "(string \<times> rat) list \<Rightarrow> (string \<times> pyval) list \<Rightarrow> pyval \<Rightarrow> pyerr + scoring_result" where
  "score config_weights analysis_results research_results =
     (let weights = get_weights config_weights
      in ebind (score_categories weights analysis_results research_results) (\<lambda>cs.
           let raw = calculate_overall_score cs
           in ebind (apply_overall_adjustments raw analysis_results) (\<lambda>adjusted.
                Inr \<lparr>category_scores = cs, overall_raw = raw,
                     overall_adjusted = adjusted\<rparr>)))"


section \<open>Strings and numbers as text\<close>

text \<open>
  \<open>try: ... except (ValueError, TypeError): pass\<close> and \<open>except Exception\<close>:
  the handler's value replaces any exception of Python.
\<close>

definition catch :: "pyerr + 'a \<Rightarrow> 'a \<Rightarrow> pyerr + 'a" where
  "catch m d = (case m of Inl OutsideModel \<Rightarrow> Inl OutsideModel | Inl e \<Rightarrow> Inr d | Inr x \<Rightarrow> Inr x)"

text \<open>\<open>s.lower()\<close>, for ASCII text.\<close>

definition lower_char :: "char \<Rightarrow> char" where
  "lower_char c =
     (case map_of (zip ''ABCDEFGHIJKLMNOPQRSTUVWXYZ'' ''abcdefghijklmnopqrstuvwxyz'') c of
        None \<Rightarrow> c
      | Some l \<Rightarrow> l)"

definition lower :: "string \<Rightarrow> string" where
  "lower s = map lower_char s"

definition is_digit :: "char \<Rightarrow> bool" where
  "is_digit c = (48 \<le> (of_char c :: nat) \<and> (of_char c :: nat) \<le> 57)"

definition digit_val :: "char \<Rightarrow> nat" where
  "digit_val c = of_char c - 48"

definition digits_val :: "string \<Rightarrow> nat" where
  "digits_val ds = foldl (\<lambda>a c. 10 * a + digit_val c) 0 ds"

text \<open>\<open>s.isdigit()\<close>, for ASCII text.\<close>

definition isdigit :: "string \<Rightarrow> bool" where
  "isdigit s = (s \<noteq> [] \<and> list_all is_digit s)"

text \<open>White space as \<open>strip\<close>, \<open>split\<close> and \<open>float\<close> see it, for ASCII text.\<close>

definition is_space :: "char \<Rightarrow> bool" where
  "is_space c =
     (c = CHR '' '' \<or> (9 \<le> (of_char c :: nat) \<and> (of_char c :: nat) \<le> 13)
      \<or> (28 \<le> (of_char c :: nat) \<and> (of_char c :: nat) \<le> 31))"

definition strip :: "string \<Rightarrow> string" where
  "strip s = rev (dropWhile is_space (rev (dropWhile is_space s)))"

text \<open>The digits and the optional point of a decimal literal.\<close>

definition parse_mantissa :: "string \<Rightarrow> rat option" where
  "parse_mantissa m =
     (let ip = takeWhile is_digit m; r = dropWhile is_digit m
      in case r of
           [] \<Rightarrow> if ip = [] then None else Some (of_nat (digits_val ip))
         | c # fp \<Rightarrow>
             if c = CHR ''.'' \<and> list_all is_digit fp \<and> \<not> (ip = [] \<and> fp = [])
             then Some (of_nat (digits_val (ip @ fp)) / 10 ^ length fp)
             else None)"

definition parse_sign :: "string \<Rightarrow> rat \<times> string" where
  "parse_sign s =
     (case s of
        c # cs \<Rightarrow>
          if c = CHR ''-'' then (- 1, cs) else if c = CHR ''+'' then (1, cs) else (1, s)
      | [] \<Rightarrow> (1, s))"

definition is_exp_mark :: "char \<Rightarrow> bool" where
  "is_exp_mark c = (c = CHR ''e'' \<or> c = CHR ''E'')"

definition parse_exponent :: "string \<Rightarrow> int option" where
  "parse_exponent e =
     (let (sg, ds) = parse_sign e
      in if isdigit ds then Some ((if sg < 0 then - 1 else 1) * int (digits_val ds)) else None)"

text \<open>
  \<open>float(s)\<close> on a string: surrounding white space, a sign, a decimal literal and
  an exponent; any other text is a \<open>ValueError\<close>.  The words for infinity and
  not-a-number have no rational value, and the underscore that may group digits is
  not read here: both are outside the model.
\<close>

definition py_float :: "string \<Rightarrow> pyerr + rat" where
  "py_float s =
     (let t = strip s;
          (sg, u) = parse_sign t
      in if lower u \<in> set [''inf'', ''infinity'', ''nan''] \<or> CHR ''_'' \<in> set t
         then Inl OutsideModel
         else
           let m = takeWhile (\<lambda>c. \<not> is_exp_mark c) u;
               e = dropWhile (\<lambda>c. \<not> is_exp_mark c) u
           in case parse_mantissa m of
                None \<Rightarrow> Inl ValueError
              | Some q \<Rightarrow>
                  (case e of
                     [] \<Rightarrow> Inr (sg * q)
                   | x # ex \<Rightarrow>
                       (case parse_exponent ex of
                          None \<Rightarrow> Inl ValueError
                        | Some k \<Rightarrow> Inr (sg * q * (if 0 \<le> k then 10 ^ nat k
                                                     else 1 / 10 ^ nat (- k))))))"

text \<open>The decimal digits of a natural number.\<close>

definition digit_char :: "nat \<Rightarrow> char" where
  "digit_char n = ''0123456789'' ! n"

fun dec :: "nat \<Rightarrow> string" where
  "dec n = (if n < 10 then [digit_char n] else dec (n div 10) @ [digit_char (n mod 10)])"

declare dec.simps [simp del]

fun commas_rev :: "string \<Rightarrow> string" where
  "commas_rev (a # b # c # d # rest) = a # b # c # CHR '','' # commas_rev (d # rest)"
| "commas_rev ds = ds"

definition group3 :: "string \<Rightarrow> string" where
  "group3 ds = rev (commas_rev (rev ds))"

text \<open>The format \<open>{x:,.0f}\<close>: no decimals, ties to even, thousands separated.\<close>

definition fmt_comma0 :: "rat \<Rightarrow> string" where
  "fmt_comma0 x = (if x < 0 then ''-'' else []) @ group3 (dec (nat (py_round \<bar>x\<bar>)))"

text \<open>The format \<open>{x:.1f}\<close>: one decimal, ties to even.\<close>

definition fmt1 :: "'a::floor_ceiling \<Rightarrow> string" where
  "fmt1 x =
     (let n = nat (py_round (\<bar>x\<bar> * 10))
      in (if x < 0 then ''-'' else []) @ dec (n div 10) @ ''.'' @ dec (n mod 10))"

text \<open>
  \<open>a == b\<close> on document values: \<open>True\<close> and \<open>False\<close> equal 1 and 0, and two
  dictionaries are equal whatever the order of their keys.
\<close>

fun py_norm :: "pyval \<Rightarrow> pyval" where
  "py_norm PNone = PNone"
| "py_norm (PBool b) = PNum (if b then 1 else 0)"
| "py_norm (PNum r) = PNum r"
| "py_norm (PStr s) = PStr s"
| "py_norm (PList xs) = PList (map py_norm xs)"
| "py_norm (PDict kvs) = PDict (sort_key fst (map (\<lambda>(k, v). (k, py_norm v)) kvs))"

definition py_eq :: "pyval \<Rightarrow> pyval \<Rightarrow> bool" where
  "py_eq a b = (py_norm a = py_norm b)"

text \<open>
  \<open>v[k]\<close> for a string key: the value of a dictionary key, a \<open>KeyError\<close> for a
  key it lacks, and a \<open>TypeError\<close> on anything else.
\<close>

fun getitem :: "pyval \<Rightarrow> string \<Rightarrow> pyerr + pyval" where
  "getitem (PDict kvs) k = (case map_of kvs k of None \<Rightarrow> Inl KeyError | Some v \<Rightarrow> Inr v)"
| "getitem v k = Inl TypeError"

text \<open>\<open>len(v)\<close>.\<close>

fun py_len :: "pyval \<Rightarrow> pyerr + nat" where
  "py_len (PList xs) = Inr (length xs)"
| "py_len (PStr s) = Inr (length s)"
| "py_len (PDict kvs) = Inr (length kvs)"
| "py_len v = Inl TypeError"

text \<open>
  The items \<open>for x in v\<close> visits: the elements of a list, the characters of a
  string, the keys of a dictionary.
\<close>

fun py_iter :: "pyval \<Rightarrow> pyerr + pyval list" where
  "py_iter (PList xs) = Inr xs"
| "py_iter (PStr s) = Inr (map (\<lambda>c. PStr [c]) s)"
| "py_iter (PDict kvs) = Inr (map (\<lambda>(k, v). PStr k) kvs)"
| "py_iter v = Inl TypeError"

section \<open>Consistency checker\<close>

text \<open>
  An issue and a fix are dictionaries with fixed keys.  The text of an issue is kept
  as the template of its format string and the values it interpolates, a number
  already formatted where the template gives it a format.
\<close>

record issue =
  issue_section :: string
  issue_field :: string
  issue_text :: "string \<times> pyval list"
  issue_severity :: string

record fix_entry =
  fix_section :: string
  fix_field :: string
  fix_current :: pyval
  fix_corrected :: pyval
  fix_note :: "string option"

subsection \<open>Currency consistency\<close>

text \<open>
  The loop over \<open>["tam", "sam", "som"]\<close> of \<open>_check_currency_consistency\<close>.
\<close>

fun market_units ::
    "pyval \<Rightarrow> pyval \<Rightarrow> string list \<Rightarrow> pyerr + (issue list \<times> fix_entry list)" where
  "market_units market_analysis base_currency [] = Inr ([], [])"
| "market_units market_analysis base_currency (metric # metrics) =
     ebind (str_in metric market_analysis) (\<lambda>present.
     ebind (if \<not> present then Inr ([], [])
            else
              ebind (getitem market_analysis metric) (\<lambda>metric_data.
              ebind (py_get metric_data ''unit'' PNone) (\<lambda>unit.
                if truthy unit \<and> \<not> py_eq unit base_currency
                then Inr
                  ([\<lparr>issue_section = ''MarketAnalysis'', issue_field = metric,
                     issue_text = (''Currency mismatch: {} uses {} instead of {}'',
                                   [PStr metric, unit, base_currency]),
                     issue_severity = ''medium''\<rparr>],
                   [\<lparr>fix_section = ''MarketAnalysis'', fix_field = metric @ ''.unit'',
                     fix_current = unit, fix_corrected = base_currency,
                     fix_note = None\<rparr>])
                else Inr ([], [])))) (\<lambda>(issues, fixes).
     ebind (market_units market_analysis base_currency metrics) (\<lambda>(issues', fixes').
       Inr (issues @ issues', fixes @ fixes'))))"

text \<open>
  The loop over \<open>["gross_margin", "ebitda", "valuation", "ask"]\<close>: the units
  \<open>Percent\<close> and \<open>Ratio\<close> are not currencies and pass.
\<close>

fun finance_units ::
    "pyval \<Rightarrow> pyval \<Rightarrow> string list \<Rightarrow> pyerr + (issue list \<times> fix_entry list)" where
  "finance_units finance_analysis base_currency [] = Inr ([], [])"
| "finance_units finance_analysis base_currency (metric # metrics) =
     ebind (str_in metric finance_analysis) (\<lambda>present.
     ebind (if \<not> present then Inr ([], [])
            else
              ebind (getitem finance_analysis metric) (\<lambda>metric_data.
              ebind (py_get metric_data ''unit'' PNone) (\<lambda>unit.
                if truthy unit \<and> \<not> py_eq unit base_currency
                   \<and> unit \<noteq> PStr ''Percent'' \<and> unit \<noteq> PStr ''Ratio''
                then Inr
                  ([\<lparr>issue_section = ''Finance'', issue_field = metric,
                     issue_text = (''Currency mismatch: {} uses {} instead of {}'',
                                   [PStr metric, unit, base_currency]),
                     issue_severity = ''medium''\<rparr>],
                   [\<lparr>fix_section = ''Finance'', fix_field = metric @ ''.unit'',
                     fix_current = unit, fix_corrected = base_currency,
                     fix_note = None\<rparr>])
                else Inr ([], [])))) (\<lambda>(issues, fixes).
     ebind (finance_units finance_analysis base_currency metrics) (\<lambda>(issues', fixes').
       Inr (issues @ issues', fixes @ fixes'))))"

definition check_currency_consistency ::
    "(string \<times> pyval) list \<Rightarrow> (string \<times> pyval) list
       \<Rightarrow> pyerr + (issue list \<times> fix_entry list)" where
  "check_currency_consistency normalized_data analysis_results =
     ebind (py_get (get_or normalized_data ''units'' (PDict [])) ''base_currency''
              (PStr ''USD'')) (\<lambda>base_currency.
     ebind (case map_of analysis_results ''MarketAnalysis'' of
              None \<Rightarrow> Inr ([], [])
            | Some market_analysis \<Rightarrow>
                market_units market_analysis base_currency [''tam'', ''sam'', ''som''])
       (\<lambda>(issues, fixes).
     ebind (case map_of analysis_results ''Finance'' of
              None \<Rightarrow> Inr ([], [])
            | Some finance_analysis \<Rightarrow>
                finance_units finance_analysis base_currency
                  [''gross_margin'', ''ebitda'', ''valuation'', ''ask''])
       (\<lambda>(issues', fixes').
       Inr (issues @ issues', fixes @ fixes'))))"

subsection \<open>Market-size hierarchy\<close>

text \<open>
  The body of the \<open>try\<close> that reads a number such as \<open>$50B\<close>: the dollar sign
  and the commas go, a final \<open>B\<close>, \<open>M\<close> or \<open>K\<close> scales the rest.
\<close>

definition parse_market_value :: "string \<Rightarrow> pyerr + rat" where
  "parse_market_value validated =
     (let clean_value = filter (\<lambda>c. c \<noteq> CHR '','') (filter (\<lambda>c. c \<noteq> CHR ''$'') validated);
          (multiplier, clean_value') =
            (if clean_value \<noteq> [] \<and> last clean_value = CHR ''B''
             then (1000000000, butlast clean_value)
             else if clean_value \<noteq> [] \<and> last clean_value = CHR ''M''
             then (1000000, butlast clean_value)
             else if clean_value \<noteq> [] \<and> last clean_value = CHR ''K''
             then (1000, butlast clean_value)
             else (1, clean_value))
      in ebind (py_float clean_value') (\<lambda>x. Inr (x * multiplier)))"

text \<open>
  One round of the loop over \<open>tam\<close>, \<open>sam\<close>, \<open>som\<close>: the value read from the
  \<open>validated\<close> text of a metric, \<open>None\<close> when the metric is absent, its text is
  empty or not a string, or the text cannot be read.
\<close>

definition market_value :: "pyval \<Rightarrow> string \<Rightarrow> pyerr + rat option" where
  "market_value market_analysis metric =
     ebind (str_in metric market_analysis) (\<lambda>present.
       if \<not> present then Inr None
       else
         ebind (getitem market_analysis metric) (\<lambda>metric_data.
         ebind (py_get metric_data ''validated'' PNone) (\<lambda>validated.
           case validated of
             PStr v \<Rightarrow>
               if v \<noteq> []
               then catch (ebind (parse_market_value v) (\<lambda>x. Inr (Some x))) None
               else Inr None
           | _ \<Rightarrow> Inr None)))"

text \<open>
  The test of one level of the hierarchy and its repair: the subordinate metric at a
  quarter of its parent when the parent is positive.
\<close>

definition hierarchy_check ::
    "pyval \<Rightarrow> string \<Rightarrow> string \<Rightarrow> string \<Rightarrow> string \<Rightarrow> string
       \<Rightarrow> rat option \<Rightarrow> rat option \<Rightarrow> pyerr + (issue list \<times> fix_entry list)" where
  "hierarchy_check market_analysis field_name template child fix_name note
       parent_value child_value =
     (case (parent_value, child_value) of
        (Some p, Some c) \<Rightarrow>
          if p \<le> c
          then
            let issues =
                  [\<lparr>issue_section = ''MarketAnalysis'', issue_field = field_name,
                    issue_text = (template, [PStr (fmt_comma0 p), PStr (fmt_comma0 c)]),
                    issue_severity = ''high''\<rparr>]
            in if 0 < p
               then
                 ebind (getitem market_analysis child) (\<lambda>child_data.
                 ebind (py_get child_data ''validated'' PNone) (\<lambda>current.
                   Inr (issues,
                        [\<lparr>fix_section = ''MarketAnalysis'', fix_field = fix_name,
                          fix_current = current,
                          fix_corrected = PStr (''$'' @ fmt_comma0 (p * (25 / 100))),
                          fix_note = Some note\<rparr>])))
               else Inr (issues, [])
          else Inr ([], [])
      | _ \<Rightarrow> Inr ([], []))"

definition check_market_size_hierarchy ::
    "(string \<times> pyval) list \<Rightarrow> (string \<times> pyval) list
       \<Rightarrow> pyerr + (issue list \<times> fix_entry list)" where
  "check_market_size_hierarchy normalized_data analysis_results =
     (case map_of analysis_results ''MarketAnalysis'' of
        None \<Rightarrow> Inr ([], [])
      | Some market_analysis \<Rightarrow>
          ebind (market_value market_analysis ''tam'') (\<lambda>tam_value.
          ebind (market_value market_analysis ''sam'') (\<lambda>sam_value.
          ebind (market_value market_analysis ''som'') (\<lambda>som_value.
          ebind (hierarchy_check market_analysis ''tam_sam_hierarchy''
                   ''Market size hierarchy violation: TAM (${:,.0f}) <= SAM (${:,.0f})''
                   ''sam'' ''sam.validated''
                   ''Adjusted SAM to 25% of TAM to maintain proper hierarchy''
                   tam_value sam_value) (\<lambda>(issues, fixes).
          ebind (hierarchy_check market_analysis ''sam_som_hierarchy''
                   ''Market size hierarchy violation: SAM (${:,.0f}) <= SOM (${:,.0f})''
                   ''som'' ''som.validated''
                   ''Adjusted SOM to 25% of SAM to maintain proper hierarchy''
                   sam_value som_value) (\<lambda>(issues', fixes').
            Inr (issues @ issues', fixes @ fixes')))))))"

subsection \<open>CAGR consistency\<close>

text \<open>
  The year of a period such as \<open>2019-20\<close> or \<open>2019\<close>, \<open>None\<close> when the text
  has neither form.  A period that is not a string and is not empty raises: it has no
  \<open>split\<close> and no \<open>isdigit\<close>, and a number is no container.
\<close>

definition year_of_period :: "pyval \<Rightarrow> pyerr + int option" where
  "year_of_period period =
     (if \<not> truthy period then Inr None
      else case period of
             PStr p \<Rightarrow>
               if CHR ''-'' \<in> set p
               then (let year_str = takeWhile (\<lambda>c. c \<noteq> CHR ''-'') p
                     in if isdigit year_str then Inr (Some (int (digits_val year_str)))
                        else Inr None)
               else if isdigit p \<and> length p = 4 then Inr (Some (int (digits_val p)))
               else Inr None
           | PList xs \<Rightarrow> Inl AttributeError
           | PDict kvs \<Rightarrow> Inl AttributeError
           | _ \<Rightarrow> Inl TypeError)"

text \<open>The loop that collects the revenue points with a value and a year.\<close>

fun dated_revenues :: "pyval list \<Rightarrow> pyerr + (int \<times> pyval) list" where
  "dated_revenues [] = Inr []"
| "dated_revenues (revenue # revenues) =
     ebind (py_get revenue ''period'' PNone) (\<lambda>p.
       let period = (if truthy p then p else PStr [])
       in ebind (py_get revenue ''value'' PNone) (\<lambda>value.
            if value = PNone then dated_revenues revenues
            else
              ebind (year_of_period period) (\<lambda>year.
              ebind (dated_revenues revenues) (\<lambda>rest.
                Inr (case year of
                       None \<Rightarrow> rest
                     | Some y \<Rightarrow> if y \<noteq> 0 then (y, value) # rest else rest)))))"

text \<open>
  \<open>x ** (1 / years)\<close> for \<open>years > 0\<close>, over the reals.  A negative base has a real
  power only for \<open>years = 1\<close>; otherwise Python yields a complex number.
\<close>

definition root_power :: "rat \<Rightarrow> int \<Rightarrow> pyerr + real" where
  "root_power x years =
     (if x < 0 then (if years = 1 then Inr (of_rat x) else Inl OutsideModel)
      else Inr (of_rat x powr (1 / of_int years)))"

text \<open>\<open>(end_revenue / start_revenue) ** (1/years) - 1\<close>, in percent.\<close>

definition calculated_cagr_pct :: "rat \<Rightarrow> rat \<Rightarrow> int \<Rightarrow> pyerr + real" where
  "calculated_cagr_pct start_revenue end_revenue years =
     ebind (root_power (end_revenue / start_revenue) years) (\<lambda>g. Inr ((g - 1) * 100))"

text \<open>
  The claimed CAGR of the market analysis with the metric it was read from, \<open>None\<close>
  when there is no such metric or its \<open>claimed\<close> text is not a number.
\<close>

definition claimed_cagr :: "(string \<times> pyval) list \<Rightarrow> pyerr + (rat option \<times> pyval)" where
  "claimed_cagr analysis_results =
     (case map_of analysis_results ''MarketAnalysis'' of
        None \<Rightarrow> Inr (None, PNone)
      | Some market_analysis \<Rightarrow>
          ebind (str_in ''cagr'' market_analysis) (\<lambda>present.
            if \<not> present then Inr (None, PNone)
            else
              ebind (getitem market_analysis ''cagr'') (\<lambda>cagr_data.
              ebind (py_get cagr_data ''claimed'' (PStr [])) (\<lambda>claimed_str.
                case claimed_str of
                  PStr c \<Rightarrow>
                    if c \<noteq> []
                    then ebind (catch (ebind (py_float (filter (\<lambda>x. x \<noteq> CHR ''%'') c))
                                         (\<lambda>x. Inr (Some x))) None)
                           (\<lambda>claimed. Inr (claimed, cagr_data))
                    else Inr (None, cagr_data)
                | _ \<Rightarrow> Inr (None, cagr_data)))))"

text \<open>The body of the \<open>try\<close> of \<open>_check_cagr_calculations\<close>.\<close>

definition cagr_body ::
    "pyval list \<Rightarrow> (string \<times> pyval) list \<Rightarrow> pyerr + (issue list \<times> fix_entry list)" where
  "cagr_body revenues analysis_results =
     ebind (dated_revenues revenues) (\<lambda>unsorted.
       let dated = sort_key fst unsorted
       in if length dated < 2 then Inr ([], [])
          else
            let start_revenue = snd (hd dated);
                end_revenue = snd (last dated);
                years = fst (last dated) - fst (hd dated)
            in ebind (num_or_type_error start_revenue) (\<lambda>s.
                 if s \<le> 0 \<or> years \<le> 0 then Inr ([], [])
                 else
                   ebind (num_or_type_error end_revenue) (\<lambda>e.
                   ebind (calculated_cagr_pct s e years) (\<lambda>pct.
                   ebind (claimed_cagr analysis_results) (\<lambda>(claimed, cagr_data).
                     case claimed of
                       None \<Rightarrow> Inr ([], [])
                     | Some c \<Rightarrow>
                         if 5 < \<bar>of_rat c - pct\<bar>
                         then
                           ebind (py_get cagr_data ''validated'' PNone) (\<lambda>current.
                             Inr
                               ([\<lparr>issue_section = ''MarketAnalysis'',
                                  issue_field = ''cagr'',
                                  issue_text =
                                    (''CAGR inconsistency: claimed {:.1f}%, calculated {:.1f}%'',
                                     [PStr (fmt1 c), PStr (fmt1 pct)]),
                                  issue_severity = ''medium''\<rparr>],
                                [\<lparr>fix_section = ''MarketAnalysis'',
                                  fix_field = ''cagr.validated'',
                                  fix_current = current,
                                  fix_corrected = PStr (fmt1 pct @ ''%''),
                                  fix_note = Some
                                    ''Adjusted CAGR to match historical revenue growth''\<rparr>]))
                         else Inr ([], []))))))"

definition check_cagr_calculations ::
    "(string \<times> pyval) list \<Rightarrow> (string \<times> pyval) list
       \<Rightarrow> pyerr + (issue list \<times> fix_entry list)" where
  "check_cagr_calculations normalized_data analysis_results =
     ebind (py_get (get_or normalized_data ''finance'' (PDict [])) ''revenues'' (PList []))
       (\<lambda>revenues.
     ebind (py_len revenues) (\<lambda>n.
       if n < 2 then Inr ([], [])
       else catch (ebind (py_iter revenues) (\<lambda>items. cagr_body items analysis_results))
              ([], [])))"

section \<open>Schema normalizer\<close>

text \<open>\<open>a or b\<close>: the first operand when it is true, else the second.\<close>

definition py_or :: "pyval \<Rightarrow> pyval \<Rightarrow> pyval" where
  "py_or a b = (if truthy a then a else b)"

text \<open>
  \<open>a < b\<close> on document values: numbers with numbers, strings with strings by code
  point, lists by their first differing elements; any other pair is a \<open>TypeError\<close>.
\<close>

fun py_lt :: "pyval \<Rightarrow> pyval \<Rightarrow> pyerr + bool" where
  "py_lt (PStr a) (PStr b) = Inr (a < b)"
| "py_lt (PList []) (PList ys) = Inr (ys \<noteq> [])"
| "py_lt (PList (x # xs)) (PList []) = Inr False"
| "py_lt (PList (x # xs)) (PList (y # ys)) =
     (if py_eq x y then py_lt (PList xs) (PList ys) else py_lt x y)"
| "py_lt a b =
     (case (as_num a, as_num b) of
        (Some x, Some y) \<Rightarrow> Inr (x < y)
      | _ \<Rightarrow> Inl TypeError)"

text \<open>
  \<open>list.sort(key=...)\<close> as a stable insertion sort on the keys.  A comparison that
  raises ends the sort.
\<close>

fun insert_by_key :: "pyval \<times> 'a \<Rightarrow> (pyval \<times> 'a) list \<Rightarrow> pyerr + (pyval \<times> 'a) list" where
  "insert_by_key x [] = Inr [x]"
| "insert_by_key x (y # ys) =
     ebind (py_lt (fst y) (fst x)) (\<lambda>before.
       if before then ebind (insert_by_key x ys) (\<lambda>r. Inr (y # r))
       else Inr (x # y # ys))"

fun sort_by_key :: "(pyval \<times> 'a) list \<Rightarrow> pyerr + (pyval \<times> 'a) list" where
  "sort_by_key [] = Inr []"
| "sort_by_key (x # xs) = ebind (sort_by_key xs) (insert_by_key x)"

text \<open>\<open>_normalize_currency\<close>.\<close>

definition normalize_currency :: "(string \<times> rat) list \<Rightarrow> pyval \<Rightarrow> pyerr + pyval" where
  "normalize_currency config_rates currency_data =
     (case currency_data of
        PDict d \<Rightarrow>
          if d = []
          then Inr (PDict [(''value'', PNone), (''currency'', PStr ''USD''), (''raw'', PNone)])
          else
            let v = get_or d ''value'' PNone;
                currency = get_or d ''currency'' (PStr ''USD'');
                raw = (if v \<noteq> PNone then PDict [(''value'', v), (''currency'', currency)]
                       else PNone)
            in ebind (if v \<noteq> PNone \<and> truthy currency \<and> currency \<noteq> PStr ''USD''
                      then convert_currency v currency ''USD'' config_rates
                      else Inr v) (\<lambda>value_usd.
                 Inr (PDict [(''value'', value_usd), (''currency'', PStr ''USD''),
                             (''raw'', raw)]))
      | _ \<Rightarrow> Inr (PDict [(''value'', PNone), (''currency'', PStr ''USD''), (''raw'', PNone)]))"

text \<open>\<open>_normalize_founders\<close>: an item that is not a dictionary is skipped.\<close>

fun founder_entries :: "pyval list \<Rightarrow> pyval list" where
  "founder_entries [] = []"
| "founder_entries (PDict founder # founders) =
     PDict [(''name'', get_or founder ''name'' PNone),
            (''title'', get_or founder ''title'' PNone),
            (''linkedin'', get_or founder ''linkedin'' PNone),
            (''bio'', get_or founder ''bio'' PNone)] # founder_entries founders"
| "founder_entries (v # founders) = founder_entries founders"

definition normalize_founders :: "pyval \<Rightarrow> pyerr + pyval" where
  "normalize_founders founders =
     ebind (py_iter founders) (\<lambda>items. Inr (PList (founder_entries items)))"

text \<open>
  The loop of \<open>_normalize_revenues\<close>: each entry with its period, which is the
  sort key.
\<close>

fun revenue_entries :: "(string \<times> rat) list \<Rightarrow> pyval list \<Rightarrow> pyerr + (pyval \<times> pyval) list" where
  "revenue_entries config_rates [] = Inr []"
| "revenue_entries config_rates (PDict revenue # revenues) =
     (let v = get_or revenue ''value'' PNone;
          currency = get_or revenue ''currency'' (PStr ''USD'');
          period = py_or (py_or (get_or revenue ''year'' PNone)
                                (get_or revenue ''quarter'' PNone))
                         (get_or revenue ''period'' PNone);
          raw = (if v \<noteq> PNone then PDict [(''value'', v), (''currency'', currency)]
                 else PNone)
      in ebind (if v \<noteq> PNone \<and> truthy currency \<and> currency \<noteq> PStr ''USD''
                then convert_currency v currency ''USD'' config_rates
                else Inr v) (\<lambda>value_usd.
         ebind (revenue_entries config_rates revenues) (\<lambda>rest.
           Inr ((period,
                 PDict [(''period'', period), (''value'', value_usd),
                        (''currency'', PStr ''USD''), (''raw'', raw)]) # rest))))"
| "revenue_entries config_rates (v # revenues) = revenue_entries config_rates revenues"

text \<open>
  \<open>_normalize_revenues\<close>.  When the sort raises, the source keeps the list as the
  sort left it, which Python does not specify beyond its being a rearrangement; the
  model keeps the order of the source list.
\<close>

definition normalize_revenues :: "(string \<times> rat) list \<Rightarrow> pyval \<Rightarrow> pyerr + pyval" where
  "normalize_revenues config_rates revenues =
     ebind (py_iter revenues) (\<lambda>items.
     ebind (revenue_entries config_rates items) (\<lambda>normalized_revenues.
     ebind (catch (sort_by_key normalized_revenues) normalized_revenues) (\<lambda>sorted.
       Inr (PList (map snd sorted)))))"

text \<open>\<open>'.'.join(path)\<close> and \<open>path.split('.')\<close>.\<close>

fun join_dot :: "string list \<Rightarrow> string" where
  "join_dot [] = []"
| "join_dot [k] = k"
| "join_dot (k # ks) = k @ ''.'' @ join_dot ks"

fun split_dot :: "string \<Rightarrow> string list" where
  "split_dot [] = [[]]"
| "split_dot (c # cs) =
     (if c = CHR ''.'' then [] # split_dot cs
      else (case split_dot cs of
              w # ws \<Rightarrow> (c # w) # ws
            | [] \<Rightarrow> [[c]]))"

text \<open>\<open>p.endswith(s)\<close>.\<close>

definition ends_with :: "string \<Rightarrow> string \<Rightarrow> bool" where
  "ends_with p s = (length s \<le> length p \<and> drop (length p - length s) p = s)"

fun is_container :: "pyval \<Rightarrow> bool" where
  "is_container (PDict kvs) = True"
| "is_container (PList xs) = True"
| "is_container v = False"

text \<open>
  \<open>_get_paths\<close>.  The source adds each dotted path to a set; the model lists the
  paths in the order of the visit, and they are used as a set.
\<close>

fun get_paths :: "pyval \<Rightarrow> string list \<Rightarrow> string list" where
  "get_paths (PDict kvs) current_path =
     concat (map (\<lambda>(k, v).
                    join_dot (current_path @ [k])
                      # (if is_container v then get_paths v (current_path @ [k]) else []))
                 kvs)"
| "get_paths (PList xs) current_path =
     concat (map (\<lambda>item. if is_container item then get_paths item current_path else []) xs)"
| "get_paths v current_path = []"

text \<open>\<open>_get_by_path\<close>.\<close>

fun get_by_path :: "pyval \<Rightarrow> string list \<Rightarrow> pyval" where
  "get_by_path obj [] = obj"
| "get_by_path (PDict kvs) (key # path) =
     (case map_of kvs key of None \<Rightarrow> PNone | Some v \<Rightarrow> get_by_path v path)"
| "get_by_path obj (key # path) = PNone"

text \<open>
  \<open>_extract_extras\<close>.  The dictionary is filled while the source walks a set, in
  an order Python does not specify; the model takes the order of the visit.
\<close>

definition extract_extras :: "pyval \<Rightarrow> pyval \<Rightarrow> pyval" where
  "extract_extras extraction canonical =
     (let canonical_paths = get_paths canonical [];
          extraction_paths = remdups (get_paths extraction [])
      in PDict (concat (map (\<lambda>path.
                  if \<not> list_ex (\<lambda>p. ends_with p path) canonical_paths
                  then (let v = get_by_path extraction (split_dot path)
                        in if v \<noteq> PNone then [(path, v)] else [])
                  else []) extraction_paths)))"

text \<open>
  The body of \<open>normalize\<close> up to the extras: the copy of the canonical template
  with every field mapped from the raw document.  Reading a field of the extraction
  raises when the extraction is not a dictionary.
\<close>

definition canonical_fields ::
    "(string \<times> rat) list \<Rightarrow> pyval \<Rightarrow> pyerr + (string \<times> pyval) list" where
  "canonical_fields config_rates raw_data =
     (case raw_data of
        PDict raw \<Rightarrow>
          (case get_or raw ''extraction'' (PDict []) of
             PDict extraction \<Rightarrow>
               ebind (normalize_founders (get_or extraction ''founders'' (PList []))) (\<lambda>founders.
               ebind (normalize_currency config_rates (get_or extraction ''tam'' PNone)) (\<lambda>tam.
               ebind (normalize_currency config_rates (get_or extraction ''sam'' PNone)) (\<lambda>sam.
               ebind (normalize_currency config_rates (get_or extraction ''som'' PNone)) (\<lambda>som.
               ebind (normalize_currency config_rates (get_or extraction ''arr'' PNone)) (\<lambda>arr.
               ebind (normalize_currency config_rates (get_or extraction ''mrr'' PNone)) (\<lambda>mrr.
               ebind (normalize_currency config_rates (get_or extraction ''total_revenue'' PNone))
                 (\<lambda>total_revenue.
               ebind (normalize_currency config_rates (get_or extraction ''gross_profit'' PNone))
                 (\<lambda>gross_profit.
               ebind (normalize_currency config_rates (get_or extraction ''ebita'' PNone)) (\<lambda>ebita.
               ebind (normalize_revenues config_rates (get_or extraction ''revenues'' (PList [])))
                 (\<lambda>revenues.
               ebind (normalize_currency config_rates (get_or extraction ''ask'' PNone)) (\<lambda>ask.
               ebind (normalize_currency config_rates (get_or extraction ''valuation'' PNone))
                 (\<lambda>valuation.
               ebind (normalize_currency config_rates (get_or extraction ''funds_raised'' PNone))
                 (\<lambda>funds_raised.
                 Inr
                   [(''metadata'', PDict
                       [(''company_name'', get_or extraction ''company_name'' PNone),
                        (''tagline'', get_or extraction ''tagline'' PNone),
                        (''website'', get_or extraction ''website'' PNone),
                        (''date'', get_or extraction ''date'' PNone),
                        (''source'', get_or raw ''source'' PNone),
                        (''client_id'', get_or raw ''clientId'' PNone),
                        (''original_file_name'', get_or raw ''originalFileName'' PNone)]),
                    (''contact'', PDict
                       [(''email'', get_or extraction ''email'' PNone),
                        (''phone'', get_or extraction ''phone'' PNone),
                        (''address'', get_or extraction ''address'' PNone)]),
                    (''team'', PDict
                       [(''founders'', founders),
                        (''experience'', get_or extraction ''experience'' PNone)]),
                    (''market'', PDict
                       [(''tam'', tam), (''sam'', sam), (''som'', som),
                        (''cagr'', get_or extraction ''cagr'' PNone),
                        (''domain'', get_or extraction ''domain'' PNone),
                        (''sub_domain'', get_or extraction ''sub_domain'' PNone)]),
                    (''positioning'', PDict
                       [(''problem_statement'', get_or extraction ''problem_statement'' PNone),
                        (''solution'', get_or extraction ''solution'' PNone),
                        (''usp'', get_or extraction ''USP'' PNone),
                        (''competitors'', get_or extraction ''competitors'' (PList []))]),
                    (''finance'', PDict
                       [(''arr'', arr), (''mrr'', mrr), (''total_revenue'', total_revenue),
                        (''gross_profit'', gross_profit), (''ebita'', ebita),
                        (''year_on_year_growth'',
                           get_or extraction ''year_on_year_growth'' PNone),
                        (''revenues'', revenues),
                        (''runway'', get_or extraction ''runway'' PNone)]),
                    (''fundraise'', PDict
                       [(''ask'', ask), (''valuation'', valuation),
                        (''funds_raised'', funds_raised)]),
                    (''gtm'', PDict
                       [(''revenue_streams'', get_or extraction ''revenue_streams'' (PList [])),
                        (''business_model'', get_or extraction ''business_model'' PNone),
                        (''channels'', get_or extraction ''channels'' (PList []))]),
                    (''units'', PDict [(''base_currency'', PStr ''USD'')]),
                    (''extras'', PDict [])])))))))))))))
           | _ \<Rightarrow> Inl AttributeError)
      | _ \<Rightarrow> Inl AttributeError)"

text \<open>
  \<open>normalize\<close>: the mapped fields, then the extras computed against them, then the
  base currency set once more.
\<close>

definition normalize :: "(string \<times> rat) list \<Rightarrow> pyval \<Rightarrow> pyerr + pyval" where
  "normalize config_rates raw_data =
     ebind (canonical_fields config_rates raw_data) (\<lambda>canonical.
     ebind (py_get raw_data ''extraction'' (PDict [])) (\<lambda>extraction.
       let with_extras =
             dict_set canonical ''extras'' (extract_extras extraction (PDict canonical))
       in Inr (PDict (dict_set with_extras ''units''
                        (PDict [(''base_currency'', PStr ''USD'')])))))"

text \<open>
  What a caller reads at a path of the normalizer's output, \<open>None\<close> when the
  normalizer raised.
\<close>

definition normalized_field :: "(string \<times> rat) list \<Rightarrow> pyval \<Rightarrow> string list \<Rightarrow> pyval option" where
  "normalized_field config_rates raw_data path =
     (case normalize config_rates raw_data of
        Inl e \<Rightarrow> None
      | Inr out \<Rightarrow> Some (get_by_path out path))"

text \<open>The monetary leaves of the canonical schema, by section and name.\<close>

definition currency_leaves :: "string list list" where
  "currency_leaves =
     [[''market'', ''tam''], [''market'', ''sam''], [''market'', ''som''],
      [''finance'', ''arr''], [''finance'', ''mrr''], [''finance'', ''total_revenue''],
      [''finance'', ''gross_profit''], [''finance'', ''ebita''],
      [''fundraise'', ''ask''], [''fundraise'', ''valuation''],
      [''fundraise'', ''funds_raised'']]"

section \<open>Orchestrator: the pipeline\<close>

text \<open>\<open>s.split()\<close> on white space.\<close>

fun split_words :: "string \<Rightarrow> string \<Rightarrow> string list" where
  "split_words w [] = (if w = [] then [] else [w])"
| "split_words w (c # cs) =
     (if is_space c then (if w = [] then split_words [] cs else w # split_words [] cs)
      else split_words (w @ [c]) cs)"

definition py_split :: "string \<Rightarrow> string list" where
  "py_split s = split_words [] s"

definition details_dict :: "pyval \<Rightarrow> pyval \<Rightarrow> string \<Rightarrow> pyval \<Rightarrow> pyval" where
  "details_dict company_name domain business_model ceo =
     PDict [(''name'', company_name), (''domain'', domain),
            (''business_model'', PStr business_model), (''CEO'', ceo)]"

text \<open>
  The company name taken from the first two words of the tagline when no name is
  known yet.
\<close>

definition name_from_tagline :: "pyval \<Rightarrow> pyval \<Rightarrow> pyerr + pyval" where
  "name_from_tagline tagline company_name =
     (if truthy tagline \<and> (\<not> truthy company_name \<or> company_name = PStr ''Unknown Company'')
      then (case tagline of
              PStr t \<Rightarrow>
                (case py_split t of
                   w1 # w2 # ws \<Rightarrow> Inr (PStr (w1 @ '' '' @ w2))
                 | _ \<Rightarrow> Inr company_name)
            | _ \<Rightarrow> Inl AttributeError)
      else Inr company_name)"

text \<open>
  The loop over the founders: the name of the first one whose title mentions a CEO or
  a founder.  A founder that is not a dictionary, or a title that is not a string,
  raises.
\<close>

fun ceo_loop :: "pyval list \<Rightarrow> pyval \<Rightarrow> pyerr + pyval" where
  "ceo_loop [] ceo = Inr ceo"
| "ceo_loop (founder # founders) ceo =
     ebind (py_get founder ''title'' (PStr [])) (\<lambda>title.
       case title of
         PStr t \<Rightarrow>
           if is_substr ''ceo'' (lower t) \<or> is_substr ''founder'' (lower t)
           then py_get founder ''name'' ceo
           else ceo_loop founders ceo
       | _ \<Rightarrow> Inl AttributeError)"

text \<open>\<open>founders[0]\<close>: the first element of a list, the first character of a string.\<close>

fun first_item :: "pyval \<Rightarrow> pyerr + pyval" where
  "first_item (PList (x # xs)) = Inr x"
| "first_item (PStr (c # cs)) = Inr (PStr [c])"
| "first_item (PDict kvs) = Inl KeyError"
| "first_item v = Inl TypeError"

definition find_ceo :: "pyval \<Rightarrow> pyerr + pyval" where
  "find_ceo founders =
     (if \<not> truthy founders then Inr (PStr ''Management Team'')
      else
        ebind (py_len founders) (\<lambda>n.
          if \<not> 0 < n then Inr (PStr ''Management Team'')
          else
            ebind (py_iter founders) (\<lambda>items.
            ebind (ceo_loop items (PStr ''Management Team'')) (\<lambda>ceo.
              if ceo = PStr ''Management Team''
              then ebind (first_item founders) (\<lambda>first.
                   ebind (py_get first ''name'' PNone) (\<lambda>name.
                     if truthy name then py_get first ''name'' PNone else Inr ceo))
              else Inr ceo))))"

text \<open>\<open>any("retail" in stream.lower() for stream in revenue_streams)\<close>.\<close>

fun any_retail :: "pyval list \<Rightarrow> pyerr + bool" where
  "any_retail [] = Inr False"
| "any_retail (PStr stream # streams) =
     (if is_substr ''retail'' (lower stream) then Inr True else any_retail streams)"
| "any_retail (v # streams) = Inl AttributeError"

definition business_model_of :: "pyval \<Rightarrow> pyerr + string" where
  "business_model_of revenue_streams =
     (if \<not> truthy revenue_streams then Inr ''B2B''
      else ebind (py_iter revenue_streams) (\<lambda>streams.
           ebind (any_retail streams) (\<lambda>retail. Inr (if retail then ''B2C'' else ''B2B''))))"

text \<open>\<open>_extract_basic_details\<close>.\<close>

definition extract_basic_details :: "pyval \<Rightarrow> pyerr + pyval" where
  "extract_basic_details data =
     (if \<not> truthy data
      then Inr (details_dict (PStr ''Unknown Company'') (PStr ''Technology'') ''B2B''
                  (PStr ''Management Team''))
      else
        ebind (py_get data ''metadata'' (PDict [])) (\<lambda>metadata.
        ebind (if truthy metadata
               then py_get metadata ''company_name'' (PStr ''Unknown Company'')
               else Inr (PStr ''Unknown Company'')) (\<lambda>company_name.
        ebind (py_get data ''extraction'' (PDict [])) (\<lambda>extraction.
          if \<not> truthy extraction
          then Inr (details_dict company_name (PStr ''Technology'') ''B2B''
                      (PStr ''Management Team''))
          else
            ebind (py_get extraction ''domain'' (PStr ''Technology'')) (\<lambda>domain.
            ebind (py_get extraction ''tagline'' PNone) (\<lambda>tagline.
            ebind (name_from_tagline tagline company_name) (\<lambda>company_name'.
            ebind (py_get extraction ''founders'' (PList [])) (\<lambda>founders.
            ebind (find_ceo founders) (\<lambda>ceo.
            ebind (py_get extraction ''revenue_streams'' (PList [])) (\<lambda>revenue_streams.
            ebind (business_model_of revenue_streams) (\<lambda>business_model.
              Inr (details_dict company_name' domain business_model ceo))))))))))))"

text \<open>
  The test of \<open>_extract_pros\<close> on one metric of one category: the category is not
  empty, has the metric, and the metric's final score is at least 7.
\<close>

definition strong_metric :: "(string \<times> pyval) list \<Rightarrow> string \<Rightarrow> string \<Rightarrow> pyerr + bool" where
  "strong_metric analysis_results category metric =
     (let section_data = get_or analysis_results category (PDict [])
      in if \<not> truthy section_data then Inr False
         else
           ebind (str_in metric section_data) (\<lambda>present.
             if \<not> present then Inr False
             else
               ebind (getitem section_data metric) (\<lambda>metric_data.
               ebind (py_get metric_data ''final_score'' (PNum 0)) (\<lambda>final_score.
                 ge_num final_score 7))))"

definition extract_pros :: "(string \<times> pyval) list \<Rightarrow> pyerr + string list" where
  "extract_pros analysis_results =
     (if analysis_results = []
      then Inr [''Strong founding team with relevant experience'',
                ''Attractive market opportunity'',
                ''Scalable business model'']
      else
        ebind (strong_metric analysis_results ''MarketAnalysis'' ''tam'') (\<lambda>market.
        ebind (strong_metric analysis_results ''Finance'' ''runway'') (\<lambda>finance.
          let pros =
                (if market then [''Attractive market size with strong growth potential'']
                 else [])
                @ (if finance then [''Solid financial runway and capital efficiency'']
                   else [])
          in Inr (pros @ take (3 - length pros)
                    [''Experienced founding team with domain expertise'',
                     ''Scalable business model with multiple revenue streams'',
                     ''Clear product differentiation in competitive landscape'']))))"

definition extract_red_flags :: "(string \<times> pyval) list \<Rightarrow> string list" where
  "extract_red_flags analysis_results =
     (if analysis_results = []
      then [''Limited financial data available for validation'',
            ''Highly competitive market with established players'',
            ''Execution risk in scaling operations'']
      else [''Highly competitive market with established players'',
            ''Potential regulatory challenges in target markets'',
            ''Supply chain complexity may impact margins''])"

definition investment_weights :: "(string \<times> rat) list" where
  "investment_weights =
     [(''MarketAnalysis'', 25 / 100), (''Finance'', 25 / 100),
      (''ProductMarketFit'', 20 / 100), (''Scalability'', 15 / 100),
      (''CompetitiveLandscape'', 15 / 100)]"

text \<open>
  The loop of \<open>_calculate_investment_score\<close>: the weighted sum and the sum of the
  weights over the categories that have a weight and an average.
\<close>

fun investment_sums :: "(string \<times> pyval) list \<Rightarrow> pyerr + rat \<times> rat" where
  "investment_sums [] = Inr (0, 0)"
| "investment_sums ((category, result) # rest) =
     ebind (case map_of investment_weights category of
              None \<Rightarrow> Inr (0, 0)
            | Some w \<Rightarrow>
                ebind (str_in ''category_average'' result) (\<lambda>present.
                  if \<not> present then Inr (0, 0)
                  else
                    ebind (getitem result ''category_average'') (\<lambda>score.
                    ebind (num_or_type_error score) (\<lambda>s. Inr (s * w, w)))))
       (\<lambda>(score, w).
     ebind (investment_sums rest) (\<lambda>(total_score, total_weight).
       Inr (score + total_score, w + total_weight)))"

definition calculate_investment_score :: "(string \<times> pyval) list \<Rightarrow> pyerr + int" where
  "calculate_investment_score analysis_results =
     (if analysis_results = [] then Inr 5
      else
        ebind (investment_sums analysis_results) (\<lambda>(total_score, total_weight).
          if 0 < total_weight then Inr (py_round (total_score / total_weight))
          else Inr 7))"

text \<open>\<open>_count_validation_points\<close>.\<close>

fun count_validated :: "pyval list \<Rightarrow> pyerr + nat" where
  "count_validated [] = Inr 0"
| "count_validated (PDict category_data # rest) =
     ebind (count_validated rest) (\<lambda>n.
       Inr (length (filter (\<lambda>(key, v). is_dict v \<and> str_in ''validated'' v = Inr True)
                      category_data) + n))"
| "count_validated (v # rest) = Inl AttributeError"

definition count_validation_points :: "(string \<times> pyval) list \<Rightarrow> pyerr + nat" where
  "count_validation_points analysis_results =
     ebind (count_validated (map snd analysis_results)) (\<lambda>n. Inr (max n 1))"

definition estimate_processing_time :: "string list \<Rightarrow> string" where
  "estimate_processing_time available_agents =
     (let agent_count = length available_agents
      in if agent_count \<le> 2 then ''2-5 minutes''
         else if agent_count \<le> 5 then ''5-10 minutes''
         else ''10-15 minutes'')"

text \<open>
  One analysis agent, run when it is available: its result, or the error object made
  from the message of the exception it raised.  An agent is a function from the data
  it is given to a message or a result.
\<close>

definition run_agent ::
    "string list \<Rightarrow> string \<Rightarrow> string \<Rightarrow> (pyval \<Rightarrow> string + pyval) \<Rightarrow> pyval
       \<Rightarrow> (string \<times> pyval) list" where
  "run_agent available_agents agent category process normalized_data =
     (if agent \<in> set available_agents
      then (case process normalized_data of
              Inl message \<Rightarrow> [(category, PDict [(''error'', PStr message)])]
            | Inr result \<Rightarrow> [(category, result)])
      else [])"

text \<open>
  Step 2 of the pipeline: the normalized document and whether it was produced.  When
  the normalizer raises, the raw document stands in for it.
\<close>

definition normalize_step ::
    "string list \<Rightarrow> (string \<times> rat) list \<Rightarrow> pyval \<Rightarrow> pyerr + pyval \<times> bool" where
  "normalize_step available_agents config_rates raw_data =
     (if truthy raw_data \<and> ''schema_normalizer'' \<in> set available_agents
      then catch (ebind (normalize config_rates raw_data) (\<lambda>n. Inr (n, True)))
             (raw_data, False)
      else Inr (raw_data, False))"

text \<open>
  \<open>_process_pitch_async\<close>.  The fetcher maps a pitch identifier to the raw document
  or to the exception it raises; \<open>now\<close> is the time stamp of the run.  The summary
  is kept as its template and the two values it interpolates.
\<close>

definition process_pitch_async ::
    "string list \<Rightarrow> (string \<times> rat) list \<Rightarrow> (string \<Rightarrow> pyerr + pyval)
       \<Rightarrow> (pyval \<Rightarrow> string + pyval) \<Rightarrow> (pyval \<Rightarrow> string + pyval)
       \<Rightarrow> string \<Rightarrow> string \<Rightarrow> pyerr + pyval" where
  "process_pitch_async available_agents config_rates mongo_fetcher market_analysis
       finance_analysis now pitch_id =
     (if ''mongo_fetcher'' \<notin> set available_agents
      then Inr (PDict [(''error'', PStr ''Data fetching not available''),
                       (''status'', PStr ''failed''),
                       (''metadata'', PDict [(''generated_at'', PStr now),
                                             (''analysis_version'', PStr ''1.0'')])])
      else
        ebind (mongo_fetcher pitch_id) (\<lambda>raw_data.
        ebind (py_get raw_data ''clientId'' PNone) (\<lambda>client_id.
        ebind (normalize_step available_agents config_rates raw_data)
          (\<lambda>(normalized_data, normalized).
          let analysis_results =
                run_agent available_agents ''market_analysis'' ''MarketAnalysis''
                  market_analysis normalized_data
                @ run_agent available_agents ''finance_analysis'' ''Finance''
                    finance_analysis normalized_data
          in
            ebind (extract_basic_details normalized_data) (\<lambda>details.
            ebind (py_get details ''name'' (PStr ''Company'')) (\<lambda>name.
            ebind (py_get details ''domain'' (PStr ''Technology'')) (\<lambda>domain.
            ebind (extract_pros analysis_results) (\<lambda>pros.
            ebind (calculate_investment_score analysis_results) (\<lambda>final_irs_score.
            ebind (calculate_confidence_score analysis_results) (\<lambda>final_cs_score.
            ebind (count_validation_points analysis_results) (\<lambda>total_validation_points.
              Inr (PDict
                ([(''pitchId'', PStr pitch_id),
                  (''clientId'', client_id),
                  (''metadata'', PDict
                     [(''generated_at'', PStr now),
                      (''analysis_version'', PStr ''1.0''),
                      (''data_sources_used'', PNum 0),
                      (''total_validation_points'', PNum (of_nat total_validation_points)),
                      (''processing_time_estimate'',
                         PStr (estimate_processing_time available_agents))]),
                  (''analysis'', PDict analysis_results),
                  (''details'', details),
                  (''raw_data'', raw_data)]
                 @ (if normalized then [(''normalized_data'', normalized_data)] else [])
                 @ [(''summary'', PList
                       [PStr ''{} presents an investment opportunity in the {} sector.'',
                        name, domain]),
                    (''pros'', PList (map PStr pros)),
                    (''red_flags'', PList (map PStr (extract_red_flags analysis_results))),
                    (''final_irs_score'', PNum (of_int final_irs_score)),
                    (''final_cs_score'', PNum (of_int final_cs_score)),
                    (''uniqueness'', PNum 75)])))))))))))))"

section \<open>Properties\<close>

subsection \<open>Rounding\<close>

lemma py_round_mono_bounds:
  assumes "of_int a \<le> (x :: 'a::floor_ceiling)" and "x \<le> of_int b"
  shows "a \<le> py_round x \<and> py_round x \<le> b"
proof -
  have f1: "a \<le> \<lfloor>x\<rfloor>" using assms(1) by (simp add: le_floor_iff)
  have f2: "\<lfloor>x\<rfloor> \<le> b" using assms(2) by (simp add: floor_le_iff)
  show ?thesis
  proof (cases "x = of_int \<lfloor>x\<rfloor>")
    case True
    then have "x - of_int \<lfloor>x\<rfloor> < 1 / 2" by simp
    then have "py_round x = \<lfloor>x\<rfloor>" by (simp add: py_round_def Let_def)
    with f1 f2 show ?thesis by simp
  next
    case False
    then have "of_int \<lfloor>x\<rfloor> < x" using of_int_floor_le [of x] by linarith
    then have "of_int \<lfloor>x\<rfloor> < (of_int b :: 'a)" using assms(2) by linarith
    then have "\<lfloor>x\<rfloor> < b" by simp
    moreover have "py_round x = \<lfloor>x\<rfloor> \<or> py_round x = \<lfloor>x\<rfloor> + 1"
      by (simp add: py_round_def Let_def)
    ultimately show ?thesis using f1 by auto
  qed
qed

subsection \<open>The confidence score\<close>

lemma count_error_sections_dicts:
  "list_all is_dict vs \<Longrightarrow>
     count_error_sections vs = Inr (length (filter error_shaped vs))"
proof (induction vs)
  case Nil
  then show ?case by simp
next
  case (Cons v vs)
  then obtain kvs where v: "v = PDict kvs" by (cases v) auto
  from Cons show ?case by (simp add: v)
qed

lemma filter_not_length:
  "int (length (filter (\<lambda>v. \<not> P v) xs)) = int (length xs) - int (length (filter P xs))"
  using sum_length_filter_compl [of P xs] by linarith

text \<open>
  C10.  For every analyses map whose categories are dictionaries (an analysis result
  or an error object), the confidence score is returned, it is 6 on the empty map and
  otherwise \<open>round(5 + 5 f)\<close> for the fraction \<open>f\<close> of categories not shaped as
  errors, and it lies between 5 and 10.
\<close>

theorem confidence_score_range:
  assumes "list_all is_dict (map snd ar)"
  shows "\<exists>n. calculate_confidence_score ar = Inr n
           \<and> n = (if ar = [] then 6 else py_round (5 + 5 * ok_fraction ar))
           \<and> 5 \<le> n \<and> n \<le> 10"
proof (cases "ar = []")
  case True
  then show ?thesis by (simp add: calculate_confidence_score_def)
next
  case False
  let ?vs = "map snd ar"
  let ?t = "int (length ar)"
  let ?e = "int (length (filter error_shaped ?vs))"
  have tpos: "0 < ?t" using False by simp
  have cnt: "count_error_sections ?vs = Inr (length (filter error_shaped ?vs))"
    using assms by (rule count_error_sections_dicts)
  have ok: "int (length (filter (\<lambda>v. \<not> error_shaped v) ?vs)) = ?t - ?e"
    using filter_not_length [of error_shaped ?vs] by simp
  have frac: "ok_fraction ar = (of_int (?t - ?e) :: rat) / of_int ?t"
    unfolding ok_fraction_def using ok
    by (metis of_int_of_nat_eq)
  have val: "calculate_confidence_score ar = Inr (py_round (5 + 5 * ok_fraction ar))"
    using False tpos cnt
    by (simp add: calculate_confidence_score_def Let_def frac mult.commute)
  have e_le: "?e \<le> ?t" using length_filter_le [of error_shaped ?vs] by simp
  have f0: "0 \<le> ok_fraction ar" unfolding frac using e_le tpos by simp
  have f1: "ok_fraction ar \<le> 1" unfolding frac using tpos by simp
  have "(of_int 5 :: rat) \<le> 5 + 5 * ok_fraction ar" using f0 by simp
  moreover have "5 + 5 * ok_fraction ar \<le> (of_int 10 :: rat)" using f1 by simp
  ultimately have "5 \<le> py_round (5 + 5 * ok_fraction ar)
      \<and> py_round (5 + 5 * ok_fraction ar) \<le> 10"
    by (rule py_round_mono_bounds)
  with val False show ?thesis by simp
qed

theorem confidence_score_range_witness:
  "list_all is_dict (map snd
      [(''MarketAnalysis'', PDict [(''error'', PStr ''timeout'')]),
       (''Finance'', PDict [(''error'', PStr ''no data'')])])
   \<and> calculate_confidence_score
      [(''MarketAnalysis'', PDict [(''error'', PStr ''timeout'')]),
       (''Finance'', PDict [(''error'', PStr ''no data'')])] = Inr 5"
  using confidence_score_range
    [of "[(''MarketAnalysis'', PDict [(''error'', PStr ''timeout'')]),
          (''Finance'', PDict [(''error'', PStr ''no data'')])]"]
  by (simp add: ok_fraction_def py_round_def)

subsection \<open>Scoring weights\<close>








subsection \<open>Scoring with a failed category\<close>

lemma py_round_unique:
  assumes "of_int n - 1 / 2 < x" and "x < of_int n + 1 / 2"
  shows "py_round x = n"
proof -
  have lo: "n - 1 \<le> \<lfloor>x\<rfloor>" using assms(1) by (simp add: le_floor_iff)
  have hi: "\<lfloor>x\<rfloor> \<le> n" using assms(2) by (simp add: floor_le_iff)
  show ?thesis
  proof (cases "\<lfloor>x\<rfloor> = n")
    case True
    then have "x - of_int \<lfloor>x\<rfloor> < 1 / 2" using assms(2) by simp
    then show ?thesis using True by (simp add: py_round_def Let_def)
  next
    case False
    then have f: "\<lfloor>x\<rfloor> = n - 1" using lo hi by linarith
    then have "1 / 2 < x - of_int \<lfloor>x\<rfloor>" using assms(1) by simp
    then show ?thesis using f by (simp add: py_round_def Let_def)
  qed
qed

text \<open>
  C1.  The claim says that a category whose analysis is an error object has no entry
  in \<open>category_scores\<close> and adds nothing to either sum of \<open>overall_raw\<close>.
  The code scores it: the error object is a key of \<open>analysis_results\<close>, its
  missing average defaults to 0, and its weight enters the weight sum.  With a failed
  market analysis and a finance average of 8 the overall raw score is 4.4, not 8.0.
\<close>

theorem score_error_category_scored:
  "score [] [(''MarketAnalysis'', PDict [(''error'', PStr ''provider failed'')]),
             (''Finance'', PDict [(''category_average'', PNum 8)])] PNone
   = Inr \<lparr>category_scores =
            [(''MarketAnalysis'',
              \<lparr>raw_score = PNum 0, adjusted_score = PNum 0, weight = 1 / 5,
               weighted_score = 0\<rparr>),
             (''Finance'',
              \<lparr>raw_score = PNum 8, adjusted_score = PNum 8, weight = 1 / 4,
               weighted_score = 2\<rparr>)],
          overall_raw = 22 / 5, overall_adjusted = 22 / 5\<rparr>"
proof -
  have r1: "py_round (400 / 9) = 44" by (rule py_round_unique) simp_all
  have r2: "py_round 44 = 44" using py_round_unique [of 44 44] by simp
  show ?thesis
    by (simp add: score_def get_weights_def DEFAULT_WEIGHTS_def ebind_def num_or_type_error_def
      adjust_score_with_research_def get_or_def calculate_overall_score_def py_round1_def
      apply_overall_adjustments_def category_average_of_def risk_adjustment_def
      bonus_adjustment_def ge_num_def Let_def r1 r2)
qed

subsection \<open>Currency round trip\<close>

lemma key_in_str: "key_in (PStr k) d = Inr (k \<in> set (map fst d))"
  by simp












subsection \<open>Reading and writing numbers\<close>

lemmas float_simps = py_float_def strip_def is_space_def lower_def lower_char_def is_digit_def
  is_exp_mark_def parse_sign_def parse_mantissa_def digits_val_def digit_val_def

lemma py_float_100: "py_float ''100'' = Inr 100"
  by (simp add: float_simps Let_def)

lemma py_float_150: "py_float ''150'' = Inr 150"
  by (simp add: float_simps Let_def)

lemma py_float_50: "py_float ''50'' = Inr 50"
  by (simp add: float_simps Let_def)

lemma parse_100M: "parse_market_value ''$100M'' = Inr 100000000"
  by (simp add: parse_market_value_def py_float_100 ebind_def)

lemma parse_150M: "parse_market_value ''$150M'' = Inr 150000000"
  by (simp add: parse_market_value_def py_float_150 ebind_def)

lemma fmt_comma0_25M: "fmt_comma0 25000000 = ''25,000,000''"
proof -
  have r: "py_round (25000000 :: rat) = 25000000"
    using py_round_unique [of 25000000 "25000000::rat"] by simp
  show ?thesis by (simp add: fmt_comma0_def r dec.simps group3_def digit_char_def)
qed

lemma fmt_comma0_100M: "fmt_comma0 100000000 = ''100,000,000''"
proof -
  have r: "py_round (100000000 :: rat) = 100000000"
    using py_round_unique [of 100000000 "100000000::rat"] by simp
  show ?thesis by (simp add: fmt_comma0_def r dec.simps group3_def digit_char_def)
qed

lemma fmt_comma0_150M: "fmt_comma0 150000000 = ''150,000,000''"
proof -
  have r: "py_round (150000000 :: rat) = 150000000"
    using py_round_unique [of 150000000 "150000000::rat"] by simp
  show ?thesis by (simp add: fmt_comma0_def r dec.simps group3_def digit_char_def)
qed

subsection \<open>The market-size hierarchy rule\<close>

lemma map_of_Some_key: "map_of kvs k = Some v \<Longrightarrow> k \<in> fst ` set kvs"
  by (metis map_of_SomeD fst_conv image_eqI)

lemma market_value_validated:
  assumes "map_of ma m = Some (PDict d)" and "map_of d ''validated'' = Some (PStr v)"
    and "v \<noteq> []" and "parse_market_value v = Inr x"
  shows "market_value (PDict ma) m = Inr (Some x)"
proof -
  have "m \<in> fst ` set ma" using assms(1) by (rule map_of_Some_key)
  then show ?thesis
    using assms by (simp add: market_value_def ebind_def get_or_def catch_def)
qed

lemma market_value_some_dict:
  assumes "market_value (PDict ma) m = Inr (Some x)"
  shows "\<exists>d. map_of ma m = Some (PDict d)"
proof (cases "map_of ma m")
  case None
  then have "m \<notin> fst ` set ma" by (simp add: map_of_eq_None_iff)
  then show ?thesis using assms by (simp add: market_value_def ebind_def)
next
  case (Some md)
  then have "m \<in> fst ` set ma" by (rule map_of_Some_key)
  then show ?thesis
    using assms Some by (cases md) (simp_all add: market_value_def ebind_def)
qed

lemma sam_som_check:
  assumes "market_value (PDict ma) ''som'' = Inr sv"
  shows "\<exists>is fs. hierarchy_check (PDict ma) ''sam_som_hierarchy'' T ''som'' ''som.validated'' N
                   (Some p) sv = Inr (is, fs)
           \<and> list_all (\<lambda>i. issue_field i = ''sam_som_hierarchy'') is
           \<and> list_all (\<lambda>f. fix_field f = ''som.validated'') fs"
proof (cases sv)
  case None
  then show ?thesis by (simp add: hierarchy_check_def)
next
  case (Some c)
  then obtain d where "map_of ma ''som'' = Some (PDict d)"
    using assms market_value_some_dict by blast
  then show ?thesis using Some by (simp add: hierarchy_check_def ebind_def Let_def)
qed

text \<open>
  C5.  For a market analysis whose TAM is validated as \<open>$100M\<close> and whose SAM is
  validated as \<open>$150M\<close>, whatever the SOM metric yields, the hierarchy rule
  returns exactly one issue for \<open>tam_sam_hierarchy\<close>, of high severity, and
  exactly one fix for \<open>sam.validated\<close>, whose corrected value is
  \<open>$25,000,000\<close>, a quarter of the TAM.
\<close>

theorem tam_sam_violation:
  assumes "map_of ar ''MarketAnalysis'' = Some (PDict ma)"
    and "map_of ma ''tam'' = Some (PDict t)"
    and "map_of t ''validated'' = Some (PStr ''$100M'')"
    and "map_of ma ''sam'' = Some (PDict s)"
    and "map_of s ''validated'' = Some (PStr ''$150M'')"
    and "market_value (PDict ma) ''som'' = Inr som_value"
  shows "\<exists>issues fixes.
           check_market_size_hierarchy nd ar = Inr (issues, fixes)
         \<and> filter (\<lambda>i. issue_field i = ''tam_sam_hierarchy'') issues =
             [\<lparr>issue_section = ''MarketAnalysis'', issue_field = ''tam_sam_hierarchy'',
               issue_text =
                 (''Market size hierarchy violation: TAM (${:,.0f}) <= SAM (${:,.0f})'',
                  [PStr ''100,000,000'', PStr ''150,000,000'']),
               issue_severity = ''high''\<rparr>]
         \<and> filter (\<lambda>f. fix_field f = ''sam.validated'') fixes =
             [\<lparr>fix_section = ''MarketAnalysis'', fix_field = ''sam.validated'',
               fix_current = PStr ''$150M'', fix_corrected = PStr ''$25,000,000'',
               fix_note = Some ''Adjusted SAM to 25% of TAM to maintain proper hierarchy''\<rparr>]"
proof -
  have tam: "market_value (PDict ma) ''tam'' = Inr (Some 100000000)"
    using assms(2,3) parse_100M by (intro market_value_validated) simp_all
  have sam: "market_value (PDict ma) ''sam'' = Inr (Some 150000000)"
    using assms(4,5) parse_150M by (intro market_value_validated) simp_all
  have first: "hierarchy_check (PDict ma) ''tam_sam_hierarchy''
        ''Market size hierarchy violation: TAM (${:,.0f}) <= SAM (${:,.0f})''
        ''sam'' ''sam.validated'' ''Adjusted SAM to 25% of TAM to maintain proper hierarchy''
        (Some 100000000) (Some 150000000)
      = Inr ([\<lparr>issue_section = ''MarketAnalysis'', issue_field = ''tam_sam_hierarchy'',
               issue_text =
                 (''Market size hierarchy violation: TAM (${:,.0f}) <= SAM (${:,.0f})'',
                  [PStr ''100,000,000'', PStr ''150,000,000'']),
               issue_severity = ''high''\<rparr>],
             [\<lparr>fix_section = ''MarketAnalysis'', fix_field = ''sam.validated'',
               fix_current = PStr ''$150M'', fix_corrected = PStr ''$25,000,000'',
               fix_note = Some ''Adjusted SAM to 25% of TAM to maintain proper hierarchy''\<rparr>])"
    using assms(4,5)
    by (simp add: hierarchy_check_def ebind_def get_or_def Let_def
        fmt_comma0_25M fmt_comma0_100M fmt_comma0_150M)
  obtain is2 fs2 where second:
    "hierarchy_check (PDict ma) ''sam_som_hierarchy''
        ''Market size hierarchy violation: SAM (${:,.0f}) <= SOM (${:,.0f})''
        ''som'' ''som.validated'' ''Adjusted SOM to 25% of SAM to maintain proper hierarchy''
        (Some 150000000) som_value = Inr (is2, fs2)"
    and is2: "list_all (\<lambda>i. issue_field i = ''sam_som_hierarchy'') is2"
    and fs2: "list_all (\<lambda>f. fix_field f = ''som.validated'') fs2"
    using sam_som_check [OF assms(6)] by blast
  have i0: "filter (\<lambda>i. issue_field i = ''tam_sam_hierarchy'') is2 = []"
    using is2 by (induction is2) auto
  have f0: "filter (\<lambda>f. fix_field f = ''sam.validated'') fs2 = []"
    using fs2 by (induction fs2) auto
  show ?thesis
    using assms(1,6) tam sam first second i0 f0
    by (simp add: check_market_size_hierarchy_def ebind_def)
qed

theorem tam_sam_violation_witness:
  "\<exists>issues fixes.
     check_market_size_hierarchy []
       [(''MarketAnalysis'',
         PDict [(''tam'', PDict [(''validated'', PStr ''$100M'')]),
                (''sam'', PDict [(''validated'', PStr ''$150M'')])])] = Inr (issues, fixes)
     \<and> map issue_severity (filter (\<lambda>i. issue_field i = ''tam_sam_hierarchy'') issues) = [''high'']
     \<and> map fix_corrected (filter (\<lambda>f. fix_field f = ''sam.validated'') fixes)
         = [PStr ''$25,000,000'']"
proof -
  have som: "market_value
      (PDict [(''tam'', PDict [(''validated'', PStr ''$100M'')]),
              (''sam'', PDict [(''validated'', PStr ''$150M'')])]) ''som'' = Inr None"
    by (simp add: market_value_def ebind_def)
  show ?thesis
    using tam_sam_violation
      [of "[(''MarketAnalysis'',
             PDict [(''tam'', PDict [(''validated'', PStr ''$100M'')]),
                    (''sam'', PDict [(''validated'', PStr ''$150M'')])])]"
          "[(''tam'', PDict [(''validated'', PStr ''$100M'')]),
            (''sam'', PDict [(''validated'', PStr ''$150M'')])]"
          "[(''validated'', PStr ''$100M'')]" "[(''validated'', PStr ''$150M'')]" None "[]",
       OF _ _ _ _ _ som]
    by auto
qed


subsection \<open>The CAGR rule\<close>

lemma root_power_example: "root_power (144 / 100) 2 = Inr (6 / 5)"
proof -
  have "sqrt (36 / 25 :: real) = 6 / 5"
    by (rule real_sqrt_unique) (simp_all add: power2_eq_square)
  then show ?thesis by (simp add: root_power_def powr_half_sqrt of_rat_divide)
qed

lemma fmt1_20: "fmt1 (20 :: real) = ''20.0''"
proof -
  have r: "py_round (200 :: real) = 200" using py_round_unique [of 200 "200::real"] by simp
  show ?thesis by (simp add: fmt1_def r dec.simps digit_char_def)
qed

lemma fmt1_50: "fmt1 (50 :: rat) = ''50.0''"
proof -
  have r: "py_round (500 :: rat) = 500" using py_round_unique [of 500 "500::rat"] by simp
  show ?thesis by (simp add: fmt1_def r dec.simps digit_char_def)
qed

lemma year_2021: "year_of_period (PStr ''2021'') = Inr (Some 2021)"
  by (simp add: year_of_period_def isdigit_def is_digit_def digits_val_def digit_val_def)

lemma year_2023: "year_of_period (PStr ''2023'') = Inr (Some 2023)"
  by (simp add: year_of_period_def isdigit_def is_digit_def digits_val_def digit_val_def)

lemma cagr_pct_example: "calculated_cagr_pct 100 144 2 = Inr 20"
  using root_power_example by (simp add: calculated_cagr_pct_def ebind_def)

lemma claimed_50:
  "claimed_cagr [(''MarketAnalysis'',
       PDict [(''cagr'', PDict [(''claimed'', PStr ''50%''), (''validated'', v)])])]
   = Inr (Some 50, PDict [(''claimed'', PStr ''50%''), (''validated'', v)])"
  by (simp add: claimed_cagr_def ebind_def get_or_def catch_def py_float_50)

text \<open>
  C6.  For the revenues 100 in 2021 and 144 in 2023 the calculated CAGR is 20 percent,
  the square root of 144/100 less one; against a claimed CAGR of 50 percent the rule
  returns one issue of medium severity and one fix whose corrected value is the
  calculated one, written \<open>20.0%\<close>.
\<close>

theorem cagr_rule_example:
  "calculated_cagr_pct 100 144 2 = Inr 20
   \<and> check_cagr_calculations
       [(''finance'', PDict [(''revenues'',
           PList [PDict [(''period'', PStr ''2021''), (''value'', PNum 100)],
                  PDict [(''period'', PStr ''2023''), (''value'', PNum 144)]])])]
       [(''MarketAnalysis'',
         PDict [(''cagr'', PDict [(''claimed'', PStr ''50%''), (''validated'', v)])])]
     = Inr ([\<lparr>issue_section = ''MarketAnalysis'', issue_field = ''cagr'',
              issue_text = (''CAGR inconsistency: claimed {:.1f}%, calculated {:.1f}%'',
                            [PStr ''50.0'', PStr ''20.0'']),
              issue_severity = ''medium''\<rparr>],
            [\<lparr>fix_section = ''MarketAnalysis'', fix_field = ''cagr.validated'',
              fix_current = v, fix_corrected = PStr ''20.0%'',
              fix_note = Some ''Adjusted CAGR to match historical revenue growth''\<rparr>])"
  by (simp add: check_cagr_calculations_def cagr_body_def ebind_def get_or_def catch_def
      year_2021 year_2023 cagr_pct_example claimed_50 num_or_type_error_def fmt1_20 fmt1_50
      Let_def)


subsection \<open>The currency rule\<close>

lemma market_units_origin:
  "market_units a base ms = Inr (is, fs) \<Longrightarrow>
     list_all (\<lambda>i. issue_section i = ''MarketAnalysis'' \<and> issue_field i \<in> set ms) is
     \<and> list_all (\<lambda>f. fix_section f = ''MarketAnalysis''
                       \<and> (\<exists>m'\<in>set ms. fix_field f = m' @ ''.unit'')) fs"
proof (induction ms arbitrary: "is" fs)
  case Nil
  then show ?case by simp
next
  case (Cons m ms)
  from Cons.prems obtain is1 fs1 is2 fs2 where
    rest: "market_units a base ms = Inr (is2, fs2)" and
    split: "is = is1 @ is2" "fs = fs1 @ fs2" and
    one: "list_all (\<lambda>i. issue_section i = ''MarketAnalysis'' \<and> issue_field i = m) is1"
         "list_all (\<lambda>f. fix_section f = ''MarketAnalysis'' \<and> fix_field f = m @ ''.unit'') fs1"
    by (auto simp: ebind_def split: sum.splits if_splits prod.splits)
  from Cons.IH [OF rest] show ?case
    using split one by (auto simp: list_all_iff)
qed


lemma finance_units_origin:
  "finance_units a base ms = Inr (is, fs) \<Longrightarrow>
     list_all (\<lambda>i. issue_section i = ''Finance'' \<and> issue_field i \<in> set ms) is
     \<and> list_all (\<lambda>f. fix_section f = ''Finance''
                       \<and> (\<exists>m'\<in>set ms. fix_field f = m' @ ''.unit'')) fs"
proof (induction ms arbitrary: "is" fs)
  case Nil
  then show ?case by simp
next
  case (Cons m ms)
  from Cons.prems obtain is1 fs1 is2 fs2 where
    rest: "finance_units a base ms = Inr (is2, fs2)" and
    split: "is = is1 @ is2" "fs = fs1 @ fs2" and
    one: "list_all (\<lambda>i. issue_section i = ''Finance'' \<and> issue_field i = m) is1"
         "list_all (\<lambda>f. fix_section f = ''Finance'' \<and> fix_field f = m @ ''.unit'') fs1"
    by (auto simp: ebind_def split: sum.splits if_splits prod.splits)
  from Cons.IH [OF rest] show ?case
    using split one by (auto simp: list_all_iff)
qed

lemma filter_none: "list_all (\<lambda>x. \<not> P x) xs \<Longrightarrow> filter P xs = []"
  by (induction xs) auto

lemma market_units_hit:
  assumes "market_units (PDict a) base ms = Inr (is, fs)"
    and "distinct ms" and "m \<in> set ms"
    and "map_of a m = Some (PDict d)" and "get_or d ''unit'' PNone = unit"
    and "truthy unit" and "\<not> py_eq unit base"
  shows "filter (\<lambda>i. issue_field i = m) is =
           [\<lparr>issue_section = ''MarketAnalysis'', issue_field = m,
             issue_text = (''Currency mismatch: {} uses {} instead of {}'',
                           [PStr m, unit, base]),
             issue_severity = ''medium''\<rparr>]
         \<and> filter (\<lambda>f. fix_field f = m @ ''.unit'') fs =
           [\<lparr>fix_section = ''MarketAnalysis'', fix_field = m @ ''.unit'',
             fix_current = unit, fix_corrected = base, fix_note = None\<rparr>]"
  using assms(1-3)
proof (induction ms arbitrary: "is" fs)
  case Nil
  then show ?case by simp
next
  case (Cons m' ms)
  have key: "m \<in> fst ` set a" using assms(4) by (rule map_of_Some_key)
  show ?case
  proof (cases "m' = m")
    case True
    then have "m \<notin> set ms" using Cons.prems(2) by simp
    from Cons.prems(1) True key assms(4-7) obtain is2 fs2 where
      rest: "market_units (PDict a) base ms = Inr (is2, fs2)" and
      split: "is = \<lparr>issue_section = ''MarketAnalysis'', issue_field = m,
             issue_text = (''Currency mismatch: {} uses {} instead of {}'',
                           [PStr m, unit, base]),
             issue_severity = ''medium''\<rparr> # is2"
         "fs = \<lparr>fix_section = ''MarketAnalysis'', fix_field = m @ ''.unit'',
             fix_current = unit, fix_corrected = base, fix_note = None\<rparr> # fs2"
      by (auto simp: ebind_def split: sum.splits prod.splits)
    from market_units_origin [OF rest]
    have o1: "\<forall>i\<in>set is2. issue_field i \<in> set ms"
      and o2: "\<forall>f\<in>set fs2. \<exists>m'\<in>set ms. fix_field f = m' @ ''.unit''"
      by (auto simp: list_all_iff)
    have "filter (\<lambda>i. issue_field i = m) is2 = []"
      using o1 \<open>m \<notin> set ms\<close> by (auto simp: filter_empty_conv)
    moreover have "filter (\<lambda>f. fix_field f = m @ ''.unit'') fs2 = []"
      using o2 \<open>m \<notin> set ms\<close> by (fastforce simp: filter_empty_conv)
    ultimately show ?thesis using split by simp
  next
    case False
    then have m: "m \<in> set ms" using Cons.prems(3) by simp
    from Cons.prems(1) obtain is1 fs1 is2 fs2 where
      rest: "market_units (PDict a) base ms = Inr (is2, fs2)" and
      split: "is = is1 @ is2" "fs = fs1 @ fs2" and
      one: "list_all (\<lambda>i. issue_field i = m') is1"
           "list_all (\<lambda>f. fix_field f = m' @ ''.unit'') fs1"
      by (auto simp: ebind_def split: sum.splits if_splits prod.splits)
    have "filter (\<lambda>i. issue_field i = m) is1 = []"
      and "filter (\<lambda>f. fix_field f = m @ ''.unit'') fs1 = []"
      using one False by (auto intro!: filter_none simp: list_all_iff)
    moreover have "distinct ms" using Cons.prems(2) by simp
    ultimately show ?thesis
      using Cons.IH [OF rest _ m] split by simp
  qed
qed

lemma finance_units_hit:
  assumes "finance_units (PDict a) base ms = Inr (is, fs)"
    and "distinct ms" and "m \<in> set ms"
    and "map_of a m = Some (PDict d)" and "get_or d ''unit'' PNone = unit"
    and "truthy unit" and "\<not> py_eq unit base"
    and "unit \<noteq> PStr ''Percent''" and "unit \<noteq> PStr ''Ratio''"
  shows "filter (\<lambda>i. issue_field i = m) is =
           [\<lparr>issue_section = ''Finance'', issue_field = m,
             issue_text = (''Currency mismatch: {} uses {} instead of {}'',
                           [PStr m, unit, base]),
             issue_severity = ''medium''\<rparr>]
         \<and> filter (\<lambda>f. fix_field f = m @ ''.unit'') fs =
           [\<lparr>fix_section = ''Finance'', fix_field = m @ ''.unit'',
             fix_current = unit, fix_corrected = base, fix_note = None\<rparr>]"
  using assms(1-3)
proof (induction ms arbitrary: "is" fs)
  case Nil
  then show ?case by simp
next
  case (Cons m' ms)
  have key: "m \<in> fst ` set a" using assms(4) by (rule map_of_Some_key)
  show ?case
  proof (cases "m' = m")
    case True
    then have "m \<notin> set ms" using Cons.prems(2) by simp
    from Cons.prems(1) True key assms(4-9) obtain is2 fs2 where
      rest: "finance_units (PDict a) base ms = Inr (is2, fs2)" and
      split: "is = \<lparr>issue_section = ''Finance'', issue_field = m,
             issue_text = (''Currency mismatch: {} uses {} instead of {}'',
                           [PStr m, unit, base]),
             issue_severity = ''medium''\<rparr> # is2"
         "fs = \<lparr>fix_section = ''Finance'', fix_field = m @ ''.unit'',
             fix_current = unit, fix_corrected = base, fix_note = None\<rparr> # fs2"
      by (auto simp: ebind_def split: sum.splits prod.splits)
    from finance_units_origin [OF rest]
    have o1: "\<forall>i\<in>set is2. issue_field i \<in> set ms"
      and o2: "\<forall>f\<in>set fs2. \<exists>m'\<in>set ms. fix_field f = m' @ ''.unit''"
      by (auto simp: list_all_iff)
    have "filter (\<lambda>i. issue_field i = m) is2 = []"
      using o1 \<open>m \<notin> set ms\<close> by (auto simp: filter_empty_conv)
    moreover have "filter (\<lambda>f. fix_field f = m @ ''.unit'') fs2 = []"
      using o2 \<open>m \<notin> set ms\<close> by (fastforce simp: filter_empty_conv)
    ultimately show ?thesis using split by simp
  next
    case False
    then have m: "m \<in> set ms" using Cons.prems(3) by simp
    from Cons.prems(1) obtain is1 fs1 is2 fs2 where
      rest: "finance_units (PDict a) base ms = Inr (is2, fs2)" and
      split: "is = is1 @ is2" "fs = fs1 @ fs2" and
      one: "list_all (\<lambda>i. issue_field i = m') is1"
           "list_all (\<lambda>f. fix_field f = m' @ ''.unit'') fs1"
      by (auto simp: ebind_def split: sum.splits if_splits prod.splits)
    have "filter (\<lambda>i. issue_field i = m) is1 = []"
      and "filter (\<lambda>f. fix_field f = m @ ''.unit'') fs1 = []"
      using one False by (auto intro!: filter_none simp: list_all_iff)
    moreover have "distinct ms" using Cons.prems(2) by simp
    ultimately show ?thesis
      using Cons.IH [OF rest _ m] split by simp
  qed
qed


text \<open>
  A listed metric whose unit is not empty and differs from the base currency (and, in
  the finance analysis, is neither \<open>Percent\<close> nor \<open>Ratio\<close>) has exactly one
  issue and exactly one fix.
\<close>

lemma currency_mismatch_hit:
  assumes ret: "check_currency_consistency nd ar = Inr (issues, fixes)"
    and base: "py_get (get_or nd ''units'' (PDict [])) ''base_currency'' (PStr ''USD'')
                 = Inr base"
    and checked:
      "(sec = ''MarketAnalysis'' \<and> m \<in> set [''tam'', ''sam'', ''som''])
       \<or> (sec = ''Finance'' \<and> m \<in> set [''gross_margin'', ''ebitda'', ''valuation'', ''ask'']
           \<and> unit \<noteq> PStr ''Percent'' \<and> unit \<noteq> PStr ''Ratio'')"
    and sdict: "map_of ar sec = Some (PDict a)"
    and metric: "map_of a m = Some (PDict d)"
    and unit: "get_or d ''unit'' PNone = unit" "truthy unit" "\<not> py_eq unit base"
  shows "filter (\<lambda>i. issue_section i = sec \<and> issue_field i = m) issues =
           [\<lparr>issue_section = sec, issue_field = m,
             issue_text = (''Currency mismatch: {} uses {} instead of {}'',
                           [PStr m, unit, base]),
             issue_severity = ''medium''\<rparr>]
         \<and> filter (\<lambda>f. fix_section f = sec \<and> fix_field f = m @ ''.unit'') fixes =
           [\<lparr>fix_section = sec, fix_field = m @ ''.unit'',
             fix_current = unit, fix_corrected = base, fix_note = None\<rparr>]"
proof -
  let ?M = "case map_of ar ''MarketAnalysis'' of
              None \<Rightarrow> Inr ([], [])
            | Some ma \<Rightarrow> market_units ma base [''tam'', ''sam'', ''som'']"
  let ?F = "case map_of ar ''Finance'' of
              None \<Rightarrow> Inr ([], [])
            | Some fa \<Rightarrow> finance_units fa base [''gross_margin'', ''ebitda'', ''valuation'', ''ask'']"
  from ret base obtain mi mf fi ff where
    M: "?M = Inr (mi, mf)" and F: "?F = Inr (fi, ff)" and
    cat: "issues = mi @ fi" "fixes = mf @ ff"
    by (auto simp: check_currency_consistency_def ebind_def split: sum.splits prod.splits)
  have Mo: "list_all (\<lambda>i. issue_section i = ''MarketAnalysis'') mi
            \<and> list_all (\<lambda>f. fix_section f = ''MarketAnalysis'') mf"
    using M market_units_origin [of _ base "[''tam'', ''sam'', ''som'']" mi mf]
    by (auto simp: list_all_iff split: option.splits)
  have Fo: "list_all (\<lambda>i. issue_section i = ''Finance'') fi
            \<and> list_all (\<lambda>f. fix_section f = ''Finance'') ff"
    using F finance_units_origin
      [of _ base "[''gross_margin'', ''ebitda'', ''valuation'', ''ask'']" fi ff]
    by (auto simp: list_all_iff split: option.splits)
  from checked show ?thesis
  proof
    assume c: "sec = ''MarketAnalysis'' \<and> m \<in> set [''tam'', ''sam'', ''som'']"
    then have run: "market_units (PDict a) base [''tam'', ''sam'', ''som''] = Inr (mi, mf)"
      using M sdict by simp
    have hit: "filter (\<lambda>i. issue_field i = m) mi =
           [\<lparr>issue_section = ''MarketAnalysis'', issue_field = m,
             issue_text = (''Currency mismatch: {} uses {} instead of {}'',
                           [PStr m, unit, base]),
             issue_severity = ''medium''\<rparr>]
         \<and> filter (\<lambda>f. fix_field f = m @ ''.unit'') mf =
           [\<lparr>fix_section = ''MarketAnalysis'', fix_field = m @ ''.unit'',
             fix_current = unit, fix_corrected = base, fix_note = None\<rparr>]"
      using c by (intro market_units_hit [OF run _ _ metric unit]) simp_all
    have "filter (\<lambda>i. issue_section i = sec \<and> issue_field i = m) fi = []"
      and "filter (\<lambda>f. fix_section f = sec \<and> fix_field f = m @ ''.unit'') ff = []"
      using Fo c by (auto simp: filter_empty_conv list_all_iff)
    moreover have "filter (\<lambda>i. issue_section i = sec \<and> issue_field i = m) mi
                    = filter (\<lambda>i. issue_field i = m) mi"
      and "filter (\<lambda>f. fix_section f = sec \<and> fix_field f = m @ ''.unit'') mf
                    = filter (\<lambda>f. fix_field f = m @ ''.unit'') mf"
      using Mo c by (auto simp: list_all_iff intro!: filter_cong)
    ultimately show ?thesis using hit cat c by simp
  next
    assume c: "sec = ''Finance''
       \<and> m \<in> set [''gross_margin'', ''ebitda'', ''valuation'', ''ask'']
       \<and> unit \<noteq> PStr ''Percent'' \<and> unit \<noteq> PStr ''Ratio''"
    then have run: "finance_units (PDict a) base
         [''gross_margin'', ''ebitda'', ''valuation'', ''ask''] = Inr (fi, ff)"
      using F sdict by simp
    have hit: "filter (\<lambda>i. issue_field i = m) fi =
           [\<lparr>issue_section = ''Finance'', issue_field = m,
             issue_text = (''Currency mismatch: {} uses {} instead of {}'',
                           [PStr m, unit, base]),
             issue_severity = ''medium''\<rparr>]
         \<and> filter (\<lambda>f. fix_field f = m @ ''.unit'') ff =
           [\<lparr>fix_section = ''Finance'', fix_field = m @ ''.unit'',
             fix_current = unit, fix_corrected = base, fix_note = None\<rparr>]"
      using c by (intro finance_units_hit [OF run _ _ metric unit]) simp_all
    have "filter (\<lambda>i. issue_section i = sec \<and> issue_field i = m) mi = []"
      and "filter (\<lambda>f. fix_section f = sec \<and> fix_field f = m @ ''.unit'') mf = []"
      using Mo c by (auto simp: filter_empty_conv list_all_iff)
    moreover have "filter (\<lambda>i. issue_section i = sec \<and> issue_field i = m) fi
                    = filter (\<lambda>i. issue_field i = m) fi"
      and "filter (\<lambda>f. fix_section f = sec \<and> fix_field f = m @ ''.unit'') ff
                    = filter (\<lambda>f. fix_field f = m @ ''.unit'') ff"
      using Fo c by (auto simp: list_all_iff intro!: filter_cong)
    ultimately show ?thesis using hit cat c by simp
  qed
qed

text \<open>Every issue and every fix of the rule belongs to one of the seven listed metrics.\<close>

lemma currency_rule_origin:
  assumes ret: "check_currency_consistency nd ar = Inr (issues, fixes)"
  shows "list_all (\<lambda>i. (issue_section i = ''MarketAnalysis''
                         \<and> issue_field i \<in> set [''tam'', ''sam'', ''som''])
                      \<or> (issue_section i = ''Finance''
                         \<and> issue_field i \<in> set [''gross_margin'', ''ebitda'', ''valuation'', ''ask'']))
           issues
         \<and> list_all (\<lambda>f. (fix_section f = ''MarketAnalysis''
                         \<and> fix_field f \<in> set [''tam.unit'', ''sam.unit'', ''som.unit''])
                      \<or> (fix_section f = ''Finance''
                         \<and> fix_field f \<in> set [''gross_margin.unit'', ''ebitda.unit'',
                                                ''valuation.unit'', ''ask.unit'']))
           fixes"
proof -
  obtain base mi mf fi ff where
    M: "(case map_of ar ''MarketAnalysis'' of
              None \<Rightarrow> Inr ([], [])
            | Some ma \<Rightarrow> market_units ma base [''tam'', ''sam'', ''som'']) = Inr (mi, mf)" and
    F: "(case map_of ar ''Finance'' of
              None \<Rightarrow> Inr ([], [])
            | Some fa \<Rightarrow> finance_units fa base
                  [''gross_margin'', ''ebitda'', ''valuation'', ''ask'']) = Inr (fi, ff)" and
    cat: "issues = mi @ fi" "fixes = mf @ ff"
    using ret
    by (auto simp: check_currency_consistency_def ebind_def split: sum.splits prod.splits)
  have Mo: "list_all (\<lambda>i. issue_section i = ''MarketAnalysis''
                          \<and> issue_field i \<in> set [''tam'', ''sam'', ''som'']) mi
            \<and> list_all (\<lambda>f. fix_section f = ''MarketAnalysis''
                          \<and> (\<exists>m'\<in>set [''tam'', ''sam'', ''som'']. fix_field f = m' @ ''.unit'')) mf"
    using M market_units_origin [of _ base "[''tam'', ''sam'', ''som'']" mi mf]
    by (cases "map_of ar ''MarketAnalysis''") simp_all
  have Fo: "list_all (\<lambda>i. issue_section i = ''Finance''
                          \<and> issue_field i \<in> set [''gross_margin'', ''ebitda'', ''valuation'', ''ask'']) fi
            \<and> list_all (\<lambda>f. fix_section f = ''Finance''
                          \<and> (\<exists>m'\<in>set [''gross_margin'', ''ebitda'', ''valuation'', ''ask''].
                                 fix_field f = m' @ ''.unit'')) ff"
    using F finance_units_origin
      [of _ base "[''gross_margin'', ''ebitda'', ''valuation'', ''ask'']" fi ff]
    by (cases "map_of ar ''Finance''") simp_all
  show ?thesis
    using Mo Fo unfolding cat by (auto simp: list_all_iff)
qed

text \<open>
  C8 (as amended).  When the currency rule returns, every issue and every fix it emits
  belongs to one of the metrics \<open>tam\<close>, \<open>sam\<close>, \<open>som\<close> of the market
  analysis and \<open>gross_margin\<close>, \<open>ebitda\<close>, \<open>valuation\<close>, \<open>ask\<close> of
  the finance analysis; and each of these metrics whose unit is not empty and differs
  from the base currency (and, in the finance analysis, is neither \<open>Percent\<close> nor
  \<open>Ratio\<close>) has exactly one issue, of medium severity, and exactly one fix, which
  corrects its unit to the base currency.
\<close>

theorem currency_mismatch_flagged:
  assumes ret: "check_currency_consistency nd ar = Inr (issues, fixes)"
  shows "list_all (\<lambda>i. (issue_section i = ''MarketAnalysis''
                         \<and> issue_field i \<in> set [''tam'', ''sam'', ''som''])
                      \<or> (issue_section i = ''Finance''
                         \<and> issue_field i \<in> set [''gross_margin'', ''ebitda'', ''valuation'', ''ask'']))
           issues
         \<and> list_all (\<lambda>f. (fix_section f = ''MarketAnalysis''
                         \<and> fix_field f \<in> set [''tam.unit'', ''sam.unit'', ''som.unit''])
                      \<or> (fix_section f = ''Finance''
                         \<and> fix_field f \<in> set [''gross_margin.unit'', ''ebitda.unit'',
                                                ''valuation.unit'', ''ask.unit'']))
           fixes
         \<and> (py_get (get_or nd ''units'' (PDict [])) ''base_currency'' (PStr ''USD'') = Inr base
              \<longrightarrow> ((sec = ''MarketAnalysis'' \<and> m \<in> set [''tam'', ''sam'', ''som''])
                   \<or> (sec = ''Finance''
                       \<and> m \<in> set [''gross_margin'', ''ebitda'', ''valuation'', ''ask'']
                       \<and> unit \<noteq> PStr ''Percent'' \<and> unit \<noteq> PStr ''Ratio''))
              \<longrightarrow> map_of ar sec = Some (PDict a)
              \<longrightarrow> map_of a m = Some (PDict d)
              \<longrightarrow> get_or d ''unit'' PNone = unit
              \<longrightarrow> truthy unit
              \<longrightarrow> \<not> py_eq unit base
              \<longrightarrow> filter (\<lambda>i. issue_section i = sec \<and> issue_field i = m) issues =
                    [\<lparr>issue_section = sec, issue_field = m,
                      issue_text = (''Currency mismatch: {} uses {} instead of {}'',
                                    [PStr m, unit, base]),
                      issue_severity = ''medium''\<rparr>]
                  \<and> filter (\<lambda>f. fix_section f = sec \<and> fix_field f = m @ ''.unit'') fixes =
                    [\<lparr>fix_section = sec, fix_field = m @ ''.unit'',
                      fix_current = unit, fix_corrected = base, fix_note = None\<rparr>])"
  using currency_rule_origin [OF ret] currency_mismatch_hit [OF ret, of base sec m unit a d]
  by blast

lemma py_eq_str: "py_eq (PStr a) (PStr b) = (a = b)"
  by (simp add: py_eq_def)

theorem currency_mismatch_flagged_witness:
  "check_currency_consistency
     [(''units'', PDict [(''base_currency'', PStr ''USD'')])]
     [(''MarketAnalysis'', PDict [(''tam'', PDict [(''unit'', PStr ''INR'')])]),
      (''Finance'', PDict [(''ask'', PDict [(''unit'', PStr ''EUR'')])])]
   = Inr
      ([\<lparr>issue_section = ''MarketAnalysis'', issue_field = ''tam'',
         issue_text = (''Currency mismatch: {} uses {} instead of {}'',
                       [PStr ''tam'', PStr ''INR'', PStr ''USD'']),
         issue_severity = ''medium''\<rparr>,
        \<lparr>issue_section = ''Finance'', issue_field = ''ask'',
         issue_text = (''Currency mismatch: {} uses {} instead of {}'',
                       [PStr ''ask'', PStr ''EUR'', PStr ''USD'']),
         issue_severity = ''medium''\<rparr>],
       [\<lparr>fix_section = ''MarketAnalysis'', fix_field = ''tam.unit'',
         fix_current = PStr ''INR'', fix_corrected = PStr ''USD'', fix_note = None\<rparr>,
        \<lparr>fix_section = ''Finance'', fix_field = ''ask.unit'',
         fix_current = PStr ''EUR'', fix_corrected = PStr ''USD'', fix_note = None\<rparr>])
   \<and> filter (\<lambda>i. issue_section i = ''Finance'' \<and> issue_field i = ''ask'')
        [\<lparr>issue_section = ''MarketAnalysis'', issue_field = ''tam'',
         issue_text = (''Currency mismatch: {} uses {} instead of {}'',
                       [PStr ''tam'', PStr ''INR'', PStr ''USD'']),
         issue_severity = ''medium''\<rparr>,
        \<lparr>issue_section = ''Finance'', issue_field = ''ask'',
         issue_text = (''Currency mismatch: {} uses {} instead of {}'',
                       [PStr ''ask'', PStr ''EUR'', PStr ''USD'']),
         issue_severity = ''medium''\<rparr>]
      = [\<lparr>issue_section = ''Finance'', issue_field = ''ask'',
         issue_text = (''Currency mismatch: {} uses {} instead of {}'',
                       [PStr ''ask'', PStr ''EUR'', PStr ''USD'']),
         issue_severity = ''medium''\<rparr>]"
proof -
  have ret: "check_currency_consistency
     [(''units'', PDict [(''base_currency'', PStr ''USD'')])]
     [(''MarketAnalysis'', PDict [(''tam'', PDict [(''unit'', PStr ''INR'')])]),
      (''Finance'', PDict [(''ask'', PDict [(''unit'', PStr ''EUR'')])])]
   = Inr
      ([\<lparr>issue_section = ''MarketAnalysis'', issue_field = ''tam'',
         issue_text = (''Currency mismatch: {} uses {} instead of {}'',
                       [PStr ''tam'', PStr ''INR'', PStr ''USD'']),
         issue_severity = ''medium''\<rparr>,
        \<lparr>issue_section = ''Finance'', issue_field = ''ask'',
         issue_text = (''Currency mismatch: {} uses {} instead of {}'',
                       [PStr ''ask'', PStr ''EUR'', PStr ''USD'']),
         issue_severity = ''medium''\<rparr>],
       [\<lparr>fix_section = ''MarketAnalysis'', fix_field = ''tam.unit'',
         fix_current = PStr ''INR'', fix_corrected = PStr ''USD'', fix_note = None\<rparr>,
        \<lparr>fix_section = ''Finance'', fix_field = ''ask.unit'',
         fix_current = PStr ''EUR'', fix_corrected = PStr ''USD'', fix_note = None\<rparr>])"
    by (simp add: check_currency_consistency_def ebind_def get_or_def py_eq_str)
  show ?thesis
    using ret currency_mismatch_flagged [OF ret, where base = "PStr ''USD''"
        and sec = "''Finance''" and m = "''ask''" and unit = "PStr ''EUR''"
        and a = "[(''ask'', PDict [(''unit'', PStr ''EUR'')])]"
        and d = "[(''unit'', PStr ''EUR'')]"]
    by (simp add: get_or_def py_eq_str)
qed

text \<open>
  C8 as stated fails for a monetary metric outside the two lists of the rule: annual
  recurring revenue declared in rupees against a base currency of US dollars yields no
  issue and no fix.
\<close>

theorem currency_unlisted_metric_unchecked:
  "check_currency_consistency
     [(''units'', PDict [(''base_currency'', PStr ''USD'')])]
     [(''Finance'',
       PDict [(''arr'', PDict [(''claimed'', PStr ''40000000''),
                               (''data_type'', PStr ''currency''),
                               (''unit'', PStr ''INR'')])])]
   = Inr ([], [])"
  by (simp add: check_currency_consistency_def ebind_def get_or_def)

subsection \<open>The normalizer's currency invariant\<close>

lemma ebind_InrE:
  assumes "ebind m f = Inr y"
  obtains x where "m = Inr x" and "f x = Inr y"
  using assms by (cases m) (simp_all add: ebind_def)

lemma normalize_currency_shape:
  assumes "normalize_currency cfg cd = Inr r"
  shows "\<exists>v raw. r = PDict [(''value'', v), (''currency'', PStr ''USD''), (''raw'', raw)]"
  using assms
  by (cases cd) (auto simp: normalize_currency_def Let_def elim!: ebind_InrE split: if_splits)

lemma revenue_entries_currency:
  "revenue_entries cfg items = Inr es \<Longrightarrow>
     list_all (\<lambda>e. get_by_path (snd e) [''currency''] = PStr ''USD'') es"
proof (induction cfg items arbitrary: es rule: revenue_entries.induct)
  case (1 cfg)
  then show ?case by simp
next
  case (2 cfg revenue revenues)
  from "2.prems" obtain value_usd rest where
    rest: "revenue_entries cfg revenues = Inr rest" and
    es: "es = (py_or (py_or (get_or revenue ''year'' PNone) (get_or revenue ''quarter'' PNone))
                     (get_or revenue ''period'' PNone),
               PDict [(''period'',
                       py_or (py_or (get_or revenue ''year'' PNone)
                                    (get_or revenue ''quarter'' PNone))
                             (get_or revenue ''period'' PNone)),
                      (''value'', value_usd), (''currency'', PStr ''USD''),
                      (''raw'', if get_or revenue ''value'' PNone \<noteq> PNone
                                then PDict [(''value'', get_or revenue ''value'' PNone),
                                            (''currency'',
                                             get_or revenue ''currency'' (PStr ''USD''))]
                                else PNone)]) # rest"
    by (auto simp: Let_def elim!: ebind_InrE)
  have "list_all (\<lambda>e. get_by_path (snd e) [''currency''] = PStr ''USD'') rest"
    using "2.IH" rest by (simp add: Let_def)
  then show ?case by (simp add: es)
qed (simp_all)

lemma insert_by_key_set:
  "insert_by_key x ys = Inr zs \<Longrightarrow> set zs = insert x (set ys)"
proof (induction ys arbitrary: zs)
  case Nil
  then show ?case by auto
next
  case (Cons y ys)
  then show ?case by (auto elim!: ebind_InrE split: if_splits)
qed

lemma sort_by_key_set: "sort_by_key xs = Inr ys \<Longrightarrow> set ys = set xs"
proof (induction xs arbitrary: ys)
  case Nil
  then show ?case by simp
next
  case (Cons x xs)
  then show ?case by (auto elim!: ebind_InrE dest!: insert_by_key_set)
qed

lemma catch_sort_set:
  "catch (sort_by_key xs) xs = Inr ys \<Longrightarrow> set ys = set xs"
  by (cases "sort_by_key xs") (auto simp: catch_def dest: sort_by_key_set split: pyerr.splits)

lemma normalize_revenues_currency:
  assumes "normalize_revenues cfg revenues = Inr r"
  shows "\<exists>rs. r = PList rs \<and> list_all (\<lambda>e. get_by_path e [''currency''] = PStr ''USD'') rs"
proof -
  from assms obtain items es sorted where
    es: "revenue_entries cfg items = Inr es" and
    sorted: "catch (sort_by_key es) es = Inr sorted" and
    r: "r = PList (map snd sorted)"
    by (auto simp: normalize_revenues_def elim!: ebind_InrE)
  have "list_all (\<lambda>e. get_by_path (snd e) [''currency''] = PStr ''USD'') sorted"
    using revenue_entries_currency [OF es] catch_sort_set [OF sorted]
    by (simp add: list_all_iff)
  then show ?thesis using r by (simp add: list_all_iff)
qed

lemma map_of_dict_set:
  "map_of (dict_set d k v) k' = (if k' = k then Some v else map_of d k')"
  by (induction d) auto

text \<open>
  C3.  Whatever the raw document, a pitch that \<open>normalize\<close> returns has the base
  currency \<open>USD\<close>, and the currency of each of its eleven monetary leaves and of
  each entry of its revenue list is \<open>USD\<close>.
\<close>

theorem normalize_currency_usd:
  assumes "normalize cfg raw = Inr out"
  shows "get_by_path out [''units'', ''base_currency''] = PStr ''USD''
       \<and> list_all (\<lambda>leaf. get_by_path out (leaf @ [''currency'']) = PStr ''USD'')
            currency_leaves
       \<and> (\<exists>rs. get_by_path out [''finance'', ''revenues''] = PList rs
               \<and> list_all (\<lambda>r. get_by_path r [''currency''] = PStr ''USD'') rs)"
proof -
  from assms obtain canonical extraction where
    c: "canonical_fields cfg raw = Inr canonical" and
    out: "out = PDict (dict_set
            (dict_set canonical ''extras'' (extract_extras extraction (PDict canonical)))
            ''units'' (PDict [(''base_currency'', PStr ''USD'')]))"
    by (auto simp: normalize_def Let_def elim!: ebind_InrE)
  from c obtain rw ex where raw: "raw = PDict rw"
    and ex: "get_or rw ''extraction'' (PDict []) = PDict ex"
    by (auto simp: canonical_fields_def split: pyval.splits)
  from c raw ex obtain founders tam sam som arr mrr total_revenue gross_profit ebita
      revenues ask valuation funds_raised where
    f: "normalize_currency cfg (get_or ex ''tam'' PNone) = Inr tam"
       "normalize_currency cfg (get_or ex ''sam'' PNone) = Inr sam"
       "normalize_currency cfg (get_or ex ''som'' PNone) = Inr som"
       "normalize_currency cfg (get_or ex ''arr'' PNone) = Inr arr"
       "normalize_currency cfg (get_or ex ''mrr'' PNone) = Inr mrr"
       "normalize_currency cfg (get_or ex ''total_revenue'' PNone) = Inr total_revenue"
       "normalize_currency cfg (get_or ex ''gross_profit'' PNone) = Inr gross_profit"
       "normalize_currency cfg (get_or ex ''ebita'' PNone) = Inr ebita"
       "normalize_currency cfg (get_or ex ''ask'' PNone) = Inr ask"
       "normalize_currency cfg (get_or ex ''valuation'' PNone) = Inr valuation"
       "normalize_currency cfg (get_or ex ''funds_raised'' PNone) = Inr funds_raised"
    and rev: "normalize_revenues cfg (get_or ex ''revenues'' (PList [])) = Inr revenues"
    and m: "map_of canonical ''market'' = Some (PDict
              [(''tam'', tam), (''sam'', sam), (''som'', som),
               (''cagr'', get_or ex ''cagr'' PNone),
               (''domain'', get_or ex ''domain'' PNone),
               (''sub_domain'', get_or ex ''sub_domain'' PNone)])"
    and fi: "map_of canonical ''finance'' = Some (PDict
              [(''arr'', arr), (''mrr'', mrr), (''total_revenue'', total_revenue),
               (''gross_profit'', gross_profit), (''ebita'', ebita),
               (''year_on_year_growth'', get_or ex ''year_on_year_growth'' PNone),
               (''revenues'', revenues),
               (''runway'', get_or ex ''runway'' PNone)])"
    and fu: "map_of canonical ''fundraise'' = Some (PDict
              [(''ask'', ask), (''valuation'', valuation),
               (''funds_raised'', funds_raised)])"
    and keys: "map fst canonical = [''metadata'', ''contact'', ''team'', ''market'',
               ''positioning'', ''finance'', ''fundraise'', ''gtm'', ''units'', ''extras'']"
    by (auto simp: canonical_fields_def elim!: ebind_InrE)
  have look: "\<And>k. k \<noteq> ''extras'' \<Longrightarrow> k \<noteq> ''units'' \<Longrightarrow>
      get_by_path out (k # path) =
        (case map_of canonical k of None \<Rightarrow> PNone | Some v \<Rightarrow> get_by_path v path)" for path
    by (simp add: out map_of_dict_set)
  have units: "get_by_path out [''units'', ''base_currency''] = PStr ''USD''"
    by (simp add: out map_of_dict_set)
  have leaves: "list_all (\<lambda>leaf. get_by_path out (leaf @ [''currency'']) = PStr ''USD'')
            currency_leaves"
    using f [THEN normalize_currency_shape] m fi fu
    by (auto simp: currency_leaves_def look)
  obtain rs where "revenues = PList rs"
    and "list_all (\<lambda>r. get_by_path r [''currency''] = PStr ''USD'') rs"
    using normalize_revenues_currency [OF rev] by blast
  then have "\<exists>rs. get_by_path out [''finance'', ''revenues''] = PList rs
               \<and> list_all (\<lambda>r. get_by_path r [''currency''] = PStr ''USD'') rs"
    using fi by (simp add: look)
  with units leaves show ?thesis by simp
qed


lemmas normalize_simps = normalize_def canonical_fields_def ebind_def get_or_def
  normalize_founders_def normalize_currency_def normalize_revenues_def catch_def
  extract_extras_def ends_with_def convert_currency_def get_currency_rates_def
  builtin_rates_def rate_of_def rate_at_def num_or_type_error_def py_div_def py_or_def

theorem normalize_currency_usd_witness:
  "normalized_field []
          (PDict [(''extraction'', PDict
             [(''tam'', PDict [(''value'', PNum 7500), (''currency'', PStr ''INR'')]),
              (''revenues'', PList
                 [PDict [(''year'', PStr ''2022''), (''value'', PNum 750),
                         (''currency'', PStr ''INR'')]])])])
          [''units'', ''base_currency''] = Some (PStr ''USD'')
   \<and> normalized_field []
          (PDict [(''extraction'', PDict
             [(''tam'', PDict [(''value'', PNum 7500), (''currency'', PStr ''INR'')]),
              (''revenues'', PList
                 [PDict [(''year'', PStr ''2022''), (''value'', PNum 750),
                         (''currency'', PStr ''INR'')]])])])
          [''market'', ''tam'', ''currency''] = Some (PStr ''USD'')"
proof -
  obtain out where out: "normalize []
          (PDict [(''extraction'', PDict
             [(''tam'', PDict [(''value'', PNum 7500), (''currency'', PStr ''INR'')]),
              (''revenues'', PList
                 [PDict [(''year'', PStr ''2022''), (''value'', PNum 750),
                         (''currency'', PStr ''INR'')]])])]) = Inr out"
    by (simp add: normalize_simps Let_def)
  show ?thesis
    using normalize_currency_usd [OF out]
    by (simp add: normalized_field_def out currency_leaves_def)
qed

subsection \<open>The extras of the normalizer\<close>

text \<open>
  C2.  The claim says that no field of the extraction outside the canonical schema is
  dropped, and the code means it: \<open>_extract_extras\<close> is documented as extracting
  the fields that do not fit into the canonical schema, and \<open>normalize\<close> calls it
  under the comment \<open>Store any unknown fields in extras\<close>.  But a path counts as
  canonical as soon as \<open>p.endswith(path)\<close> holds for the dotted text \<open>p\<close> of some
  canonical path.  The field \<open>name\<close> is mapped to no canonical field (the company
  name of the output stays \<open>None\<close>), yet the text \<open>metadata.company_name\<close> ends
  with \<open>name\<close>: the field is missing from the extras, while the unmapped
  \<open>hq.city\<close> beside it is kept.
\<close>

theorem extras_drop_name:
  "normalized_field []
     (PDict [(''extraction'', PDict
        [(''name'', PStr ''Acme''), (''hq'', PDict [(''city'', PStr ''Pune'')])])])
     [''extras'', ''name''] = Some PNone
   \<and> normalized_field []
     (PDict [(''extraction'', PDict
        [(''name'', PStr ''Acme''), (''hq'', PDict [(''city'', PStr ''Pune'')])])])
     [''extras'', ''hq.city''] = Some (PStr ''Pune'')
   \<and> normalized_field []
     (PDict [(''extraction'', PDict
        [(''name'', PStr ''Acme''), (''hq'', PDict [(''city'', PStr ''Pune'')])])])
     [''metadata'', ''company_name''] = Some PNone"
  by (simp add: normalized_field_def normalize_simps Let_def)

subsection \<open>The pipeline after a failed normalization\<close>

lemma py_round_tie:
  assumes "x = of_int n + 1 / 2"
  shows "py_round (x :: 'a::floor_ceiling) = (if even n then n else n + 1)"
proof -
  have "\<lfloor>x\<rfloor> = n" unfolding assms by (rule floor_unique) simp_all
  then show ?thesis using assms by (simp add: py_round_def Let_def)
qed

text \<open>
  The fallback itself works.  For a raw document whose revenues are \<open>None\<close> the
  normalizer raises, the raw document stands in for the normalized one, a failing
  market agent leaves its error object, and the run returns a report without
  normalized data.
\<close>

lemma degraded_run_completes:
  "normalize [] (PDict [(''clientId'', PStr ''c1''),
       (''extraction'', PDict [(''tagline'', PStr ''Spice Story brings flavour''),
                               (''revenues'', PNone)])]) = Inl TypeError
   \<and> (\<exists>r. process_pitch_async
         [''mongo_fetcher'', ''schema_normalizer'', ''market_analysis'', ''finance_analysis'']
         [] (\<lambda>pitch_id. Inr (PDict [(''clientId'', PStr ''c1''),
              (''extraction'', PDict [(''tagline'', PStr ''Spice Story brings flavour''),
                                      (''revenues'', PNone)])]))
         (\<lambda>d. Inl ''timeout'') (\<lambda>d. Inr (PDict [(''category_average'', PNum 8)]))
         now pitch_id = Inr r
       \<and> get_by_path r [''details'', ''name''] = PStr ''Spice Story''
       \<and> get_by_path r [''normalized_data''] = PNone
       \<and> get_by_path r [''analysis'', ''MarketAnalysis'', ''error''] = PStr ''timeout''
       \<and> get_by_path r [''final_cs_score''] = PNum 8)"
proof -
  have r1: "py_round (15 / 2 :: rat) = 8"
    using py_round_tie [of "15 / 2 :: rat" 7] by simp
  have r2: "py_round (8 :: rat) = 8" using py_round_unique [of 8 "8::rat"] by simp
  show ?thesis
  by (simp add: normalize_simps process_pitch_async_def normalize_step_def run_agent_def
      extract_basic_details_def name_from_tagline_def find_ceo_def business_model_of_def
      details_dict_def py_split_def is_space_def extract_pros_def strong_metric_def
      calculate_investment_score_def investment_weights_def calculate_confidence_score_def
      count_validation_points_def r1 r2 Let_def)
qed

text \<open>
  C9.  The claim says that a run whose normalization raises still produces a result.
  The code does replace the normalized data by the raw document, but
  \<open>_extract_basic_details\<close> then reads that document outside any handler.  For a
  fetched document whose extraction is a string, and for one whose TAM value is a
  text in rupees and whose founders are plain names, normalization raises and so does
  the run, whatever the analysis agents do.
\<close>

theorem degraded_run_fails:
  "normalize config_rates (PDict [(''extraction'', PStr ''pending'')]) = Inl AttributeError
   \<and> process_pitch_async
       [''mongo_fetcher'', ''schema_normalizer'', ''market_analysis'', ''finance_analysis'']
       config_rates (\<lambda>pitch_id. Inr (PDict [(''extraction'', PStr ''pending'')]))
       market_analysis finance_analysis now pitch_id = Inl AttributeError
   \<and> normalize []
       (PDict [(''extraction'', PDict
          [(''tam'', PDict [(''value'', PStr ''10M''), (''currency'', PStr ''INR'')]),
           (''founders'', PList [PStr ''Jane Doe''])])]) = Inl TypeError
   \<and> process_pitch_async
       [''mongo_fetcher'', ''schema_normalizer'', ''market_analysis'', ''finance_analysis'']
       [] (\<lambda>pitch_id. Inr (PDict [(''extraction'', PDict
          [(''tam'', PDict [(''value'', PStr ''10M''), (''currency'', PStr ''INR'')]),
           (''founders'', PList [PStr ''Jane Doe''])])]))
       market_analysis finance_analysis now pitch_id = Inl AttributeError"
  by (simp add: normalize_simps process_pitch_async_def normalize_step_def
      extract_basic_details_def name_from_tagline_def find_ceo_def Let_def)

end
